theory Spec2Isabelle
  imports Main
begin

section \<open>JavaScript values\<close>

text \<open>
  The configuration module builds plain JavaScript objects. An object is an ordered
  list of (key, value) entries, read with \<open>map_of\<close>; the object literals of the module
  have pairwise distinct keys (see \<open>nextConfig_keys_distinct\<close>). Functions stored in
  an object are named: the three closures of the module, and a function made by a
  third-party wrapper around an earlier \<open>webpack\<close> function.
\<close>

datatype js_fun =
    Fn_headers
  | Fn_rewrites
  | Fn_webpack
  | Fn_wrapped string "js_fun option"

datatype js =
    JBool bool
  | JNum int
  | JStr string
  | JArr "js list"
  | JObj "(string \<times> js) list"
  | JFun js_fun

type_synonym js_object = "(string \<times> js) list"

text \<open>\<open>const { sentry, ...rest } = config\<close>: every entry but the named one.\<close>

definition rest_without :: "string \<Rightarrow> js_object \<Rightarrow> js_object" where
  "rest_without k obj = filter (\<lambda>e. fst e \<noteq> k) obj"

text \<open>Reading a nested property, \<open>obj.a.b\<close>; \<open>None\<close> is JavaScript's \<open>undefined\<close>.\<close>

fun get_path :: "js_object \<Rightarrow> string list \<Rightarrow> js option" where
  "get_path obj [] = Some (JObj obj)"
| "get_path obj [k] = map_of obj k"
| "get_path obj (k # ks) =
     (case map_of obj k of Some (JObj inner) \<Rightarrow> get_path inner ks | _ \<Rightarrow> None)"

text \<open>A JavaScript string literal written with single quotes inside, as in \<open>"'self'"\<close>.\<close>

definition sq :: "string \<Rightarrow> string" where
  "sq s = CHR 0x27 # s @ [CHR 0x27]"

section \<open>Inputs of the module\<close>

text \<open>
  \<open>buildEnv\<close> is imported from \<open>./src/config/build-env.config.mjs\<close>: the validated build
  flags. The module reads the eleven fields below.
\<close>

record build_env =
  NEXT_BUILD_ENV_SOURCEMAPS :: bool
  NEXT_BUILD_ENV_CSP :: bool
  NEXT_BUILD_ENV_CI :: bool
  NEXT_BUILD_ENV_OUTPUT :: string
  NEXT_BUILD_ENV_TYPECHECK :: bool
  NEXT_BUILD_ENV_TSCONFIG :: string
  NEXT_BUILD_ENV_LINT :: bool
  NEXT_BUILD_ENV_SENTRY_DEBUG :: bool
  NEXT_BUILD_ENV_SENTRY_TRACING :: bool
  NEXT_BUILD_ENV_SENTRY_ENABLED :: bool
  NEXT_BUILD_ENV_SENTRY_UPLOAD_DRY_RUN :: bool

text \<open>\<open>process.env\<close>: a missing variable is \<open>undefined\<close>.\<close>

type_synonym process_env = "string \<rightharpoonup> string"

text \<open>\<open>const isProd = process.env.NODE_ENV === 'production'\<close>\<close>

definition isProd :: "process_env \<Rightarrow> bool" where
  "isProd env = (env ''NODE_ENV'' = Some ''production'')"

section \<open>The header policy\<close>

text \<open>A response header as the host framework takes it: \<open>{ key, value }\<close>.\<close>

record header =
  key :: string
  val :: string

text \<open>
  The options object handed to \<open>createSecureHeaders\<close>: the content security policy
  with its directives (none unless \<open>NEXT_BUILD_ENV_CSP === true\<close>), the HTTPS redirect
  (only with the policy enabled and \<open>NODE_ENV === 'production'\<close>), the referrer policy.
\<close>

definition csp_directives :: "build_env \<Rightarrow> js_object" where
  "csp_directives b =
     (if NEXT_BUILD_ENV_CSP b = True
      then [(''defaultSrc'', JStr (sq ''self'')),
            (''styleSrc'', JArr [JStr (sq ''self''), JStr (sq ''unsafe-inline''),
               JStr ''https://unpkg.com/@graphql-yoga/graphiql/dist/style.css'',
               JStr ''https://meet.jitsi.si'', JStr ''https://8x8.vc'']),
            (''scriptSrc'', JArr [JStr (sq ''self''), JStr (sq ''unsafe-eval''),
               JStr (sq ''unsafe-inline''), JStr ''https://unpkg.com/@graphql-yoga/graphiql'']),
            (''frameSrc'', JArr [JStr (sq ''self'')]),
            (''connectSrc'', JArr [JStr (sq ''self''),
               JStr ''https://vitals.vercel-insights.com'', JStr ''https://*.sentry.io'']),
            (''imgSrc'', JArr [JStr (sq ''self''), JStr ''https:'', JStr ''http:'', JStr ''data:'']),
            (''workerSrc'', JArr [JStr ''blob:''])]
      else [])"

definition secureHeadersOptions :: "build_env \<Rightarrow> process_env \<Rightarrow> js_object" where
  "secureHeadersOptions b env =
     [(''contentSecurityPolicy'', JObj [(''directives'', JObj (csp_directives b))])]
     @ (if NEXT_BUILD_ENV_CSP b = True \<and> env ''NODE_ENV'' = Some ''production''
        then [(''forceHTTPSRedirect'',
                 JArr [JBool True,
                       JObj [(''maxAge'', JNum (60 * 60 * 24 * 4)),
                             (''includeSubDomains'', JBool True)]])]
        else [])
     @ [(''referrerPolicy'', JStr ''same-origin'')]"

text \<open>
  \<open>createSecureHeaders\<close> belongs to the package next-secure-headers, which is not part
  of the repository: it is a parameter of the model, a function from the options
  object to a list of headers.
\<close>

type_synonym secure_headers_lib = "js_object \<Rightarrow> header list"

definition secureHeaders :: "secure_headers_lib \<Rightarrow> build_env \<Rightarrow> process_env \<Rightarrow> header list" where
  "secureHeaders createSecureHeaders b env = createSecureHeaders (secureHeadersOptions b env)"

text \<open>
  The other third-party functions of the module, parameters as well: \<open>pc.green\<close> of
  picocolors, \<open>withSentryConfig (config, options)\<close> of @sentry/nextjs and
  \<open>withBundleAnalyzer (options) (config)\<close> of @next/bundle-analyzer.
\<close>

record libs =
  createSecureHeaders :: secure_headers_lib
  pc_green :: "string \<Rightarrow> string"
  withSentryConfig :: "js_object \<Rightarrow> js_object \<Rightarrow> js_object"
  withBundleAnalyzer :: "js_object \<Rightarrow> js_object \<Rightarrow> js_object"

section \<open>The configuration object\<close>

text \<open>\<open>package.json\<close> as parsed; a field that is absent or \<open>null\<close> is \<open>None\<close>.\<close>

record package_json =
  name :: "string option"
  version :: "string option"

text \<open>
  What the module reads besides the libraries: \<open>buildEnv\<close>, \<open>process.env\<close>, the parsed
  \<open>package.json\<close>, the resolved workspace root, \<open>nextI18nConfig.i18n\<close> and the clock
  (\<open>new Date().toISOString()\<close>).
\<close>

record module_inputs =
  buildEnv :: build_env
  env :: process_env
  packageJson :: package_json
  workspaceRoot :: string
  i18n :: js
  now_iso :: string

text \<open>\<open>a ?? b\<close>\<close>

definition nullish :: "string option \<Rightarrow> string \<Rightarrow> string" where
  "nullish a b = (case a of Some v \<Rightarrow> v | None \<Rightarrow> b)"

definition images :: js where
  "images = JObj
     [(''deviceSizes'', JArr (map JNum [640, 750, 828, 1080, 1200, 1920, 2048, 3840])),
      (''imageSizes'', JArr (map JNum [16, 32, 48, 64, 96, 128, 256, 384])),
      (''minimumCacheTTL'', JNum 60),
      (''formats'', JArr [JStr ''image/webp'']),
      (''loader'', JStr ''default''),
      (''dangerouslyAllowSVG'', JBool False),
      (''disableStaticImages'', JBool False),
      (''contentSecurityPolicy'', JStr ''default-src 'self'; script-src 'none'; sandbox;''),
      (''remotePatterns'',
         JArr [JObj [(''protocol'', JStr ''https''),
                     (''hostname'', JStr ''avatars.githubusercontent.com'')]]),
      (''unoptimized'', JBool False)]"

definition modularizeImports :: js where
  "modularizeImports = JObj
     [(''@mui/material'', JObj [(''transform'', JStr ''@mui/material/{{member}}'')]),
      (''@mui/icons-material'', JObj [(''transform'', JStr ''@mui/icons-material/{{member}}'')]),
      (''@mui/styles'', JObj [(''transform'', JStr ''@mui/styles/{{member}}'')])]"

definition experimental :: "module_inputs \<Rightarrow> js" where
  "experimental m = JObj
     ((if NEXT_BUILD_ENV_OUTPUT (buildEnv m) = ''standalone''
       then [(''outputFileTracingRoot'', JStr (workspaceRoot m))]
       else [])
      @ [(''esmExternals'', JBool True),
         (''externalDir'', JBool True)])"

definition nextConfig :: "module_inputs \<Rightarrow> js_object" where
  "nextConfig m =
     [(''reactStrictMode'', JBool True),
      (''productionBrowserSourceMaps'', JBool (NEXT_BUILD_ENV_SOURCEMAPS (buildEnv m) = True)),
      (''i18n'', i18n m),
      (''optimizeFonts'', JBool True),
      (''httpAgentOptions'', JObj [(''keepAlive'', JBool True)]),
      (''onDemandEntries'',
         JObj [(''maxInactiveAge'',
                JNum ((if NEXT_BUILD_ENV_CI (buildEnv m) then 3600 else 25) * 1000))]),
      (''swcMinify'', JBool True),
      (''compiler'', JObj []),
      (''sentry'',
         JObj [(''hideSourceMaps'', JBool True),
               (''autoInstrumentServerFunctions'', JBool False)]),
      (''images'', images),
      (''transpilePackages'', JArr (if isProd (env m) then [JStr ''ofetch''] else [])),
      (''modularizeImports'', modularizeImports)]
     @ (if NEXT_BUILD_ENV_OUTPUT (buildEnv m) = ''standalone''
        then [(''output'', JStr ''standalone''), (''outputFileTracing'', JBool True)]
        else [])
     @ [(''experimental'', experimental m),
        (''typescript'',
           JObj [(''ignoreBuildErrors'', JBool (\<not> NEXT_BUILD_ENV_TYPECHECK (buildEnv m))),
                 (''tsconfigPath'', JStr (NEXT_BUILD_ENV_TSCONFIG (buildEnv m)))]),
        (''eslint'', JObj [(''ignoreDuringBuilds'', JBool (\<not> NEXT_BUILD_ENV_LINT (buildEnv m)))]),
        (''headers'', JFun Fn_headers),
        (''rewrites'', JFun Fn_rewrites),
        (''webpack'', JFun Fn_webpack),
        (''env'',
           JObj [(''APP_NAME'', JStr (nullish (name (packageJson m)) ''not-in-package.json'')),
                 (''APP_VERSION'', JStr (nullish (version (packageJson m)) ''not-in-package.json'')),
                 (''BUILD_TIME'', JStr (now_iso m))])]"

text \<open>
  \<open>let config = nextConfig\<close>, then the telemetry wrapper or the removal of the
  \<open>sentry\<close> entry, then the bundle analyzer when \<open>process.env.ANALYZE === 'true'\<close>.
\<close>

definition sentry_webpack_plugin_options :: "build_env \<Rightarrow> js_object" where
  "sentry_webpack_plugin_options b =
     [(''dryRun'', JBool (NEXT_BUILD_ENV_SENTRY_UPLOAD_DRY_RUN b = True)),
      (''silent'', JBool (NEXT_BUILD_ENV_SENTRY_DEBUG b = False))]"

definition config :: "libs \<Rightarrow> module_inputs \<Rightarrow> js_object" where
  "config L m =
     (let config1 =
            (if NEXT_BUILD_ENV_SENTRY_ENABLED (buildEnv m) = True
             then withSentryConfig L (nextConfig m) (sentry_webpack_plugin_options (buildEnv m))
             else rest_without ''sentry'' (nextConfig m))
      in if env m ''ANALYZE'' = Some ''true''
         then withBundleAnalyzer L [(''enabled'', JBool True)] config1
         else config1)"

section \<open>Evaluating the module\<close>

text \<open>
  The state the module leaves behind: what it wrote to the console, the constant
  \<open>secureHeaders\<close> and the default export.
\<close>

record module_state =
  console :: "string list"
  secureHeaders_const :: "header list"
  default_export :: js_object

definition module_body :: "libs \<Rightarrow> module_inputs \<Rightarrow> module_state" where
  "module_body L m =
     \<lparr> console =
         (if \<not> NEXT_BUILD_ENV_SOURCEMAPS (buildEnv m)
          then [''- '' @ pc_green L ''info''
                @ '' Sourcemaps generation have been disabled through NEXT_BUILD_ENV_SOURCEMAPS'']
          else []),
       secureHeaders_const = secureHeaders (createSecureHeaders L) (buildEnv m) (env m),
       default_export = config L m \<rparr>"

text \<open>
  Startup fails with an error that names a flag: the flag is missing from the
  environment, or its value is malformed. A schema lists the required flags, each with
  its test of well-formedness.
\<close>

datatype startup_error = MissingFlag string | MalformedFlag string

type_synonym env_schema = "(string \<times> (string \<Rightarrow> bool)) list"

text \<open>
  Modelled from the spec: \<open>getServerRuntimeEnv\<close> of
  \<open>./src/config/server-runtime-env.config.mjs\<close> is not among the sources. Following the
  spec, the environment flags are validated once at startup, and a required flag that
  is missing or malformed aborts startup with an error naming the offending flag. The
  names of the required flags are deployment-specific, so the schema is a parameter.
\<close>

fun getServerRuntimeEnv :: "env_schema \<Rightarrow> process_env \<Rightarrow> startup_error + (string \<times> string) list" where
  "getServerRuntimeEnv [] e = Inr []"
| "getServerRuntimeEnv ((flag, well_formed) # schema) e =
     (case e flag of
        None \<Rightarrow> Inl (MissingFlag flag)
      | Some v \<Rightarrow>
          if \<not> well_formed v then Inl (MalformedFlag flag)
          else (case getServerRuntimeEnv schema e of
                  Inl err \<Rightarrow> Inl err
                | Inr vs \<Rightarrow> Inr ((flag, v) # vs)))"

text \<open>
  \<open>const _serverEnv = getServerRuntimeEnv()\<close> is the first statement of the module
  (the constant is \<open>serverEnv\<close> here): when the call throws, nothing after it is
  evaluated and the module exports nothing.
\<close>

definition load_module :: "libs \<Rightarrow> env_schema \<Rightarrow> module_inputs \<Rightarrow> startup_error + module_state" where
  "load_module L schema m =
     (case getServerRuntimeEnv schema (env m) of
        Inl err \<Rightarrow> Inl err
      | Inr serverEnv \<Rightarrow> Inr (module_body L m))"

text \<open>One entry of the list \<open>headers()\<close> returns: a path pattern and its headers.\<close>

record header_rule =
  source :: string
  rule_headers :: "header list"

text \<open>
  \<open>async headers()\<close>: it reads the constant \<open>secureHeaders\<close> and returns a new list;
  the state is returned as it was given.
\<close>

definition headers :: "module_state \<Rightarrow> header_rule list \<times> module_state" where
  "headers s =
     ([\<lparr> source = ''/:path((?!api).*)*'',
          rule_headers =
            secureHeaders_const s
            @ [\<lparr> key = ''Cross-Origin-Opener-Policy'', val = ''same-origin'' \<rparr>,
               \<lparr> key = ''Cross-Origin-Embedder-Policy'', val = ''same-origin'' \<rparr>] \<rparr>],
      s)"

section \<open>What the theorems ask of the third-party functions\<close>

text \<open>
  Of \<open>createSecureHeaders\<close>, on the options objects this module passes to it: from a
  content security policy with directives it makes a \<open>Content-Security-Policy\<close> header
  with a value, from one without directives it makes no \<open>Content-Security-Policy\<close>
  header with a value, and from the referrer policy it makes the \<open>Referrer-Policy\<close>
  header.
\<close>

definition renders_policy_headers :: "secure_headers_lib \<Rightarrow> bool" where
  "renders_policy_headers csh \<longleftrightarrow>
     (\<forall>b e d. get_path (secureHeadersOptions b e) [''contentSecurityPolicy'', ''directives'']
                 = Some (JObj d) \<longrightarrow>
        (d \<noteq> [] \<longrightarrow>
           (\<exists>h \<in> set (csh (secureHeadersOptions b e)).
              key h = ''Content-Security-Policy'' \<and> val h \<noteq> []))
        \<and> (d = [] \<longrightarrow>
           (\<forall>h \<in> set (csh (secureHeadersOptions b e)).
              key h = ''Content-Security-Policy'' \<longrightarrow> val h = []))
        \<and> \<lparr> key = ''Referrer-Policy'', val = ''same-origin'' \<rparr>
             \<in> set (csh (secureHeadersOptions b e)))"

text \<open>
  Of a configuration wrapper: it returns a configuration with a \<open>webpack\<close> function,
  and it leaves every entry other than \<open>webpack\<close> and \<open>sentry\<close> as it found it.
\<close>

definition config_wrapper :: "(js_object \<Rightarrow> js_object) \<Rightarrow> bool" where
  "config_wrapper w \<longleftrightarrow>
     (\<forall>c. \<exists>f. map_of (w c) ''webpack'' = Some (JFun f))
     \<and> (\<forall>c k. k \<noteq> ''webpack'' \<and> k \<noteq> ''sentry'' \<longrightarrow> map_of (w c) k = map_of c k)"

definition wrappers_keep_sections :: "libs \<Rightarrow> bool" where
  "wrappers_keep_sections L \<longleftrightarrow>
     (\<forall>opts. config_wrapper (\<lambda>c. withSentryConfig L c opts))
     \<and> config_wrapper (withBundleAnalyzer L [(''enabled'', JBool True)])"

section \<open>The third-party functions as their packages document them\<close>

text \<open>
  For evaluation on concrete inputs: \<open>createSecureHeaders\<close> of next-secure-headers
  with the defaults of its rules (two years of strict transport security, frame guard
  \<open>deny\<close>, \<open>noopen\<close>, \<open>nosniff\<close>, XSS protection \<open>1\<close>), \<open>withSentryConfig\<close>, which drops the
  \<open>sentry\<close> entry and wraps \<open>webpack\<close>, and \<open>withBundleAnalyzer\<close>, which wraps
  \<open>webpack\<close> unless \<open>enabled\<close> is false.
\<close>

fun join_with :: "string \<Rightarrow> string list \<Rightarrow> string" where
  "join_with sep [] = []"
| "join_with sep [x] = x"
| "join_with sep (x # y # ys) = x @ sep @ join_with sep (y # ys)"

text \<open>A directive the package does not know is left out of the header.\<close>

definition directive_name :: "string \<Rightarrow> string option" where
  "directive_name k =
     map_of
       [(''childSrc'', ''child-src''), (''connectSrc'', ''connect-src''),
        (''defaultSrc'', ''default-src''), (''fontSrc'', ''font-src''),
        (''frameSrc'', ''frame-src''), (''imgSrc'', ''img-src''),
        (''manifestSrc'', ''manifest-src''), (''mediaSrc'', ''media-src''),
        (''objectSrc'', ''object-src''), (''scriptSrc'', ''script-src''),
        (''styleSrc'', ''style-src''), (''workerSrc'', ''worker-src'')] k"

definition directive_sources :: "js \<Rightarrow> string list" where
  "directive_sources v =
     (case v of
        JStr s \<Rightarrow> [s]
      | JArr vs \<Rightarrow> List.map_filter (\<lambda>x. case x of JStr s \<Rightarrow> Some s | _ \<Rightarrow> None) vs
      | _ \<Rightarrow> [])"

definition render_directive :: "string \<times> js \<Rightarrow> string option" where
  "render_directive e =
     (case directive_name (fst e) of
        None \<Rightarrow> None
      | Some n \<Rightarrow> Some (n @ '' '' @ join_with '' '' (directive_sources (snd e))))"

definition render_directives :: "js_object \<Rightarrow> string" where
  "render_directives d = join_with ''; '' (List.map_filter render_directive d)"

function show_nat :: "nat \<Rightarrow> string" where
  "show_nat n =
     (if n < 10 then [''0123456789'' ! n]
      else show_nat (n div 10) @ [''0123456789'' ! (n mod 10)])"
  by pat_completeness auto
termination
  by (relation "measure id") auto

declare show_nat.simps [simp del]

definition content_security_policy_header :: "js option \<Rightarrow> header list" where
  "content_security_policy_header option =
     (case option of
        Some (JObj o') \<Rightarrow>
          (case map_of o' ''directives'' of
             Some (JObj d) \<Rightarrow> [\<lparr> key = ''Content-Security-Policy'', val = render_directives d \<rparr>]
           | _ \<Rightarrow> [])
      | _ \<Rightarrow> [])"

definition strict_transport_security :: "js_object \<Rightarrow> string" where
  "strict_transport_security o' =
     ''max-age=''
     @ (case map_of o' ''maxAge'' of Some (JNum n) \<Rightarrow> show_nat (nat n) | _ \<Rightarrow> ''63072000'')
     @ (if map_of o' ''includeSubDomains'' = Some (JBool True) then ''; includeSubDomains'' else [])
     @ (if map_of o' ''preload'' = Some (JBool True) then ''; preload'' else [])"

definition force_https_redirect_header :: "js option \<Rightarrow> header list" where
  "force_https_redirect_header option =
     (case option of
        Some (JBool False) \<Rightarrow> []
      | Some (JArr [JBool True, JObj o']) \<Rightarrow>
          [\<lparr> key = ''Strict-Transport-Security'', val = strict_transport_security o' \<rparr>]
      | _ \<Rightarrow> [\<lparr> key = ''Strict-Transport-Security'', val = strict_transport_security [] \<rparr>])"

definition referrer_policy_header :: "js option \<Rightarrow> header list" where
  "referrer_policy_header option =
     (case option of
        Some (JStr p) \<Rightarrow> [\<lparr> key = ''Referrer-Policy'', val = p \<rparr>]
      | _ \<Rightarrow> [])"

definition createSecureHeaders_documented :: secure_headers_lib where
  "createSecureHeaders_documented options =
     content_security_policy_header (map_of options ''contentSecurityPolicy'')
     @ force_https_redirect_header (map_of options ''forceHTTPSRedirect'')
     @ [\<lparr> key = ''X-Frame-Options'', val = ''deny'' \<rparr>,
        \<lparr> key = ''X-Download-Options'', val = ''noopen'' \<rparr>,
        \<lparr> key = ''X-Content-Type-Options'', val = ''nosniff'' \<rparr>]
     @ referrer_policy_header (map_of options ''referrerPolicy'')
     @ [\<lparr> key = ''X-XSS-Protection'', val = ''1'' \<rparr>]"

text \<open>\<open>{ ...obj, k: v }\<close>: an entry keeps its place when the key is already there.\<close>

definition js_assign :: "js_object \<Rightarrow> string \<Rightarrow> js \<Rightarrow> js_object" where
  "js_assign obj k v =
     (if k \<in> fst ` set obj
      then map (\<lambda>e. if fst e = k then (k, v) else e) obj
      else obj @ [(k, v)])"

definition wrapped_webpack :: "string \<Rightarrow> js_object \<Rightarrow> js" where
  "wrapped_webpack by_whom c =
     JFun (Fn_wrapped by_whom (case map_of c ''webpack'' of Some (JFun f) \<Rightarrow> Some f | _ \<Rightarrow> None))"

definition withSentryConfig_documented :: "js_object \<Rightarrow> js_object \<Rightarrow> js_object" where
  "withSentryConfig_documented c options =
     js_assign (rest_without ''sentry'' c) ''webpack'' (wrapped_webpack ''@sentry/nextjs'' c)"

definition withBundleAnalyzer_documented :: "js_object \<Rightarrow> js_object \<Rightarrow> js_object" where
  "withBundleAnalyzer_documented options c =
     (if map_of options ''enabled'' = Some (JBool False) then c
      else js_assign c ''webpack'' (wrapped_webpack ''@next/bundle-analyzer'' c))"

definition documented_libs :: libs where
  "documented_libs =
     \<lparr> createSecureHeaders = createSecureHeaders_documented,
       pc_green = (\<lambda>s. CHR 0x1B # ''[32m'' @ s @ CHR 0x1B # ''[39m''),
       withSentryConfig = withSentryConfig_documented,
       withBundleAnalyzer = withBundleAnalyzer_documented \<rparr>"

section \<open>Sample inputs\<close>

definition sample_buildEnv :: build_env where
  "sample_buildEnv =
     \<lparr> NEXT_BUILD_ENV_SOURCEMAPS = True,
       NEXT_BUILD_ENV_CSP = True,
       NEXT_BUILD_ENV_CI = False,
       NEXT_BUILD_ENV_OUTPUT = ''classic'',
       NEXT_BUILD_ENV_TYPECHECK = True,
       NEXT_BUILD_ENV_TSCONFIG = ''tsconfig.json'',
       NEXT_BUILD_ENV_LINT = True,
       NEXT_BUILD_ENV_SENTRY_DEBUG = False,
       NEXT_BUILD_ENV_SENTRY_TRACING = False,
       NEXT_BUILD_ENV_SENTRY_ENABLED = True,
       NEXT_BUILD_ENV_SENTRY_UPLOAD_DRY_RUN = False \<rparr>"

definition sample_inputs :: module_inputs where
  "sample_inputs =
     \<lparr> buildEnv = sample_buildEnv,
       env = [''NODE_ENV'' \<mapsto> ''production''],
       packageJson = \<lparr> name = Some ''web-app'', version = Some ''1.0.0'' \<rparr>,
       workspaceRoot = ''/workspace'',
       i18n = JObj [(''defaultLocale'', JStr ''en''), (''locales'', JArr [JStr ''en'', JStr ''fr''])],
       now_iso = ''2023-01-01T00:00:00.000Z'' \<rparr>"

section \<open>Startup errors and the standalone keys\<close>

text \<open>A required flag offends when it is missing or when its value is malformed.\<close>

definition offending :: "env_schema \<Rightarrow> process_env \<Rightarrow> string \<Rightarrow> bool" where
  "offending schema e flag \<longleftrightarrow>
     (\<exists>well_formed. (flag, well_formed) \<in> set schema
        \<and> (case e flag of None \<Rightarrow> True | Some v \<Rightarrow> \<not> well_formed v))"

fun named_flag :: "startup_error \<Rightarrow> string" where
  "named_flag (MissingFlag flag) = flag"
| "named_flag (MalformedFlag flag) = flag"

text \<open>The error says what is wrong with the flag it names.\<close>

fun describes :: "startup_error \<Rightarrow> process_env \<Rightarrow> bool" where
  "describes (MissingFlag flag) e = (e flag = None)"
| "describes (MalformedFlag flag) e = (e flag \<noteq> None)"

text \<open>The three entries of a standalone build, as a configuration has them.\<close>

definition standalone_keys_of :: "js_object \<Rightarrow> js option \<times> js option \<times> js option" where
  "standalone_keys_of c =
     (map_of c ''output'',
      map_of c ''outputFileTracing'',
      get_path c [''experimental'', ''outputFileTracingRoot''])"

section \<open>The path pattern\<close>

text \<open>
  The host framework compiles \<open>source\<close> with path-to-regexp. In
  \<open>/:path((?!api).*)*\<close> it reads one parameter, \<open>path\<close>, with the prefix \<open>/\<close>, the
  pattern \<open>(?!api).*\<close> and the modifier \<open>*\<close>, and makes of it the anchored regular
  expression \<open>^(?:\/((?:(?!api).*)(?:\/(?:(?!api).*))*))?$\<close>, which ignores case (the
  flag \<open>i\<close>). The regular expressions needed for it: a character, \<open>.\<close> (any character
  but a line terminator), sequence, \<open>?\<close>, \<open>*\<close> and the negative lookahead \<open>(?!r)\<close>.
\<close>

text \<open>Ignoring case: an upper-case letter counts as its lower-case letter.\<close>

definition lower :: "char \<Rightarrow> char" where
  "lower c =
     (case map_of (zip ''ABCDEFGHIJKLMNOPQRSTUVWXYZ'' ''abcdefghijklmnopqrstuvwxyz'') c of
        Some l \<Rightarrow> l
      | None \<Rightarrow> c)"

datatype regexp =
    Eps
  | Chr char
  | AnyChar
  | Seq regexp regexp
  | Opt regexp
  | Star regexp
  | NotAhead regexp

text \<open>
  \<open>remainders r s\<close>: what is left of \<open>s\<close> after each way for \<open>r\<close> to match a prefix of
  it. An iteration of \<open>*\<close> that consumes nothing is not repeated, so the length of the
  text bounds the number of iterations.
\<close>

fun iterate :: "(string \<Rightarrow> string list) \<Rightarrow> nat \<Rightarrow> string \<Rightarrow> string list" where
  "iterate f 0 s = [s]"
| "iterate f (Suc n) s =
     concat (map (iterate f n) (filter (\<lambda>r. length r < length s) (f s))) @ [s]"

fun remainders :: "regexp \<Rightarrow> string \<Rightarrow> string list" where
  "remainders Eps s = [s]"
| "remainders (Chr c) s =
     (case s of [] \<Rightarrow> [] | x # xs \<Rightarrow> if lower x = lower c then [xs] else [])"
| "remainders AnyChar s =
     (case s of [] \<Rightarrow> [] | x # xs \<Rightarrow> if x = CHR 0x0A \<or> x = CHR 0x0D then [] else [xs])"
| "remainders (Seq a b) s = concat (map (remainders b) (remainders a s))"
| "remainders (Opt a) s = remainders a s @ [s]"
| "remainders (Star a) s = iterate (remainders a) (length s) s"
| "remainders (NotAhead a) s = (if remainders a s = [] then [s] else [])"

text \<open>\<open>^r$\<close>: some way of matching leaves nothing.\<close>

definition matches_whole :: "regexp \<Rightarrow> string \<Rightarrow> bool" where
  "matches_whole r s \<longleftrightarrow> [] \<in> set (remainders r s)"

fun literal :: "string \<Rightarrow> regexp" where
  "literal [] = Eps"
| "literal (c # cs) = Seq (Chr c) (literal cs)"

definition path_pattern :: regexp where
  "path_pattern = Seq (NotAhead (literal ''api'')) (Star AnyChar)"

definition source_regexp :: regexp where
  "source_regexp =
     Opt (Seq (Chr CHR ''/'')
            (Seq path_pattern (Star (Seq (Chr CHR ''/'') path_pattern))))"

definition source_matches :: "string \<Rightarrow> bool" where
  "source_matches path = matches_whole source_regexp path"

text \<open>The API routes of the host framework are \<open>/api\<close> and the paths under it.\<close>

definition is_api_route :: "string \<Rightarrow> bool" where
  "is_api_route path \<longleftrightarrow> path = ''/api'' \<or> take 5 path = ''/api/''"

section \<open>A call of \<open>headers()\<close> on the heap\<close>

text \<open>
  For the effects of a call, arrays and objects live in a heap. A value is a string or
  a reference to a cell, a cell is an array or an object, and cells are addressed by
  their position. An array or object literal allocates a new cell after the existing
  ones; nothing else in the body of \<open>headers()\<close> touches the heap.
\<close>

datatype jsval = Str string | Ref nat

datatype cell = Arr "jsval list" | Obj "(string \<times> jsval) list"

type_synonym heap = "cell list"

definition cell_at :: "heap \<Rightarrow> nat \<Rightarrow> cell option" where
  "cell_at h a = (if a < length h then Some (h ! a) else None)"

definition alloc :: "cell \<Rightarrow> heap \<Rightarrow> jsval \<times> heap" where
  "alloc c h = (Ref (length h), h @ [c])"

text \<open>The elements the spread \<open>...xs\<close> reads; what is not an array cannot be spread.\<close>

definition elements :: "heap \<Rightarrow> nat \<Rightarrow> jsval list option" where
  "elements h a = (case cell_at h a of Some (Arr xs) \<Rightarrow> Some xs | _ \<Rightarrow> None)"

text \<open>
  The body of \<open>headers()\<close>, given the address of the module's array \<open>secureHeaders\<close>:
  the spread copies the references to its header objects into a new array, after them
  the two new header objects; the array goes into a new object beside \<open>source\<close>, and
  that object into the new array the call returns.
\<close>

definition headers_call :: "nat \<Rightarrow> heap \<Rightarrow> (jsval \<times> heap) option" where
  "headers_call secureHeaders_at h =
     (case elements h secureHeaders_at of
        None \<Rightarrow> None
      | Some spread \<Rightarrow>
          (let (opener, h1) =
                 alloc (Obj [(''key'', Str ''Cross-Origin-Opener-Policy''),
                             (''value'', Str ''same-origin'')]) h;
               (embedder, h2) =
                 alloc (Obj [(''key'', Str ''Cross-Origin-Embedder-Policy''),
                             (''value'', Str ''same-origin'')]) h1;
               (list, h3) = alloc (Arr (spread @ [opener, embedder])) h2;
               (entry, h4) =
                 alloc (Obj [(''source'', Str ''/:path((?!api).*)*''), (''headers'', list)]) h3;
               (result, h5) = alloc (Arr [entry]) h4
           in Some (result, h5)))"

text \<open>What a value denotes in a heap: a header, a list of headers, the returned list.\<close>

definition read_header :: "heap \<Rightarrow> jsval \<Rightarrow> header option" where
  "read_header h v =
     (case v of
        Ref a \<Rightarrow>
          (case cell_at h a of
             Some (Obj ps) \<Rightarrow>
               (case (map_of ps ''key'', map_of ps ''value'') of
                  (Some (Str k), Some (Str x)) \<Rightarrow> Some \<lparr> key = k, val = x \<rparr>
                | _ \<Rightarrow> None)
           | _ \<Rightarrow> None)
      | _ \<Rightarrow> None)"

definition read_headers :: "heap \<Rightarrow> jsval \<Rightarrow> header list option" where
  "read_headers h v =
     (case v of
        Ref a \<Rightarrow>
          (case elements h a of
             Some xs \<Rightarrow> those (map (read_header h) xs)
           | None \<Rightarrow> None)
      | _ \<Rightarrow> None)"

definition read_rule :: "heap \<Rightarrow> jsval \<Rightarrow> header_rule option" where
  "read_rule h v =
     (case v of
        Ref a \<Rightarrow>
          (case cell_at h a of
             Some (Obj ps) \<Rightarrow>
               (case (map_of ps ''source'', map_of ps ''headers'') of
                  (Some (Str s), Some list) \<Rightarrow>
                    (case read_headers h list of
                       Some hs \<Rightarrow> Some \<lparr> source = s, rule_headers = hs \<rparr>
                     | None \<Rightarrow> None)
                | _ \<Rightarrow> None)
           | _ \<Rightarrow> None)
      | _ \<Rightarrow> None)"

definition read_rules :: "heap \<Rightarrow> jsval \<Rightarrow> header_rule list option" where
  "read_rules h v =
     (case v of
        Ref a \<Rightarrow>
          (case elements h a of
             Some xs \<Rightarrow> those (map (read_rule h) xs)
           | None \<Rightarrow> None)
      | _ \<Rightarrow> None)"

text \<open>A module heap for examples: \<open>secureHeaders\<close>, at address 1, holds one header.\<close>

definition sample_heap :: heap where
  "sample_heap =
     [Obj [(''key'', Str ''Referrer-Policy''), (''value'', Str ''same-origin'')],
      Arr [Ref 0]]"

section \<open>Facts about the model\<close>

subsection \<open>The header policy\<close>

lemma headers_fst:
  "fst (headers s) =
     [\<lparr> source = ''/:path((?!api).*)*'',
        rule_headers = secureHeaders_const s
          @ [\<lparr> key = ''Cross-Origin-Opener-Policy'', val = ''same-origin'' \<rparr>,
             \<lparr> key = ''Cross-Origin-Embedder-Policy'', val = ''same-origin'' \<rparr>] \<rparr>]"
  by (simp add: headers_def)

lemma secureHeaders_const_module_body:
  "secureHeaders_const (module_body L m) =
     createSecureHeaders L (secureHeadersOptions (buildEnv m) (env m))"
  by (simp add: module_body_def secureHeaders_def)

lemma options_directives:
  "get_path (secureHeadersOptions b e) [''contentSecurityPolicy'', ''directives'']
     = Some (JObj (csp_directives b))"
  by (simp add: secureHeadersOptions_def)

lemma options_referrerPolicy:
  "map_of (secureHeadersOptions b e) ''referrerPolicy'' = Some (JStr ''same-origin'')"
  by (simp add: secureHeadersOptions_def)

lemma csp_directives_empty_iff: "csp_directives b = [] \<longleftrightarrow> \<not> NEXT_BUILD_ENV_CSP b"
  by (simp add: csp_directives_def)

lemma csp_directives_keys:
  "NEXT_BUILD_ENV_CSP b \<Longrightarrow>
     map fst (csp_directives b)
       = [''defaultSrc'', ''styleSrc'', ''scriptSrc'', ''frameSrc'', ''connectSrc'', ''imgSrc'',
          ''workerSrc'']"
  by (simp add: csp_directives_def)

lemma options_without_policy:
  "\<not> NEXT_BUILD_ENV_CSP b \<Longrightarrow>
     secureHeadersOptions b e
       = [(''contentSecurityPolicy'', JObj [(''directives'', JObj [])]),
          (''referrerPolicy'', JStr ''same-origin'')]"
  by (simp add: secureHeadersOptions_def csp_directives_def)

lemma renders_policy_headersD:
  assumes "renders_policy_headers csh"
  shows "csp_directives b \<noteq> [] \<Longrightarrow>
           \<exists>h \<in> set (csh (secureHeadersOptions b e)). key h = ''Content-Security-Policy'' \<and> val h \<noteq> []"
    and "csp_directives b = [] \<Longrightarrow>
           \<forall>h \<in> set (csh (secureHeadersOptions b e)). key h = ''Content-Security-Policy'' \<longrightarrow> val h = []"
    and "\<lparr> key = ''Referrer-Policy'', val = ''same-origin'' \<rparr> \<in> set (csh (secureHeadersOptions b e))"
proof -
  from assms have "(csp_directives b \<noteq> [] \<longrightarrow>
           (\<exists>h \<in> set (csh (secureHeadersOptions b e)).
              key h = ''Content-Security-Policy'' \<and> val h \<noteq> []))
        \<and> (csp_directives b = [] \<longrightarrow>
           (\<forall>h \<in> set (csh (secureHeadersOptions b e)).
              key h = ''Content-Security-Policy'' \<longrightarrow> val h = []))
        \<and> \<lparr> key = ''Referrer-Policy'', val = ''same-origin'' \<rparr>
             \<in> set (csh (secureHeadersOptions b e))"
    unfolding renders_policy_headers_def
    by (elim allE [of _ b] allE [of _ e] allE [of _ "csp_directives b"] impE)
       (rule options_directives)
  then show "csp_directives b \<noteq> [] \<Longrightarrow>
           \<exists>h \<in> set (csh (secureHeadersOptions b e)). key h = ''Content-Security-Policy'' \<and> val h \<noteq> []"
    and "csp_directives b = [] \<Longrightarrow>
           \<forall>h \<in> set (csh (secureHeadersOptions b e)). key h = ''Content-Security-Policy'' \<longrightarrow> val h = []"
    and "\<lparr> key = ''Referrer-Policy'', val = ''same-origin'' \<rparr> \<in> set (csh (secureHeadersOptions b e))"
    by (simp_all only: simp_thms) (elim conjE, assumption)
qed

text \<open>
  Whatever the flag, the list carries the referrer policy and the two cross-origin
  headers, for every \<open>createSecureHeaders\<close> that renders the policy headers.
\<close>

lemma policy_headers_for_every_flag:
  assumes "renders_policy_headers (createSecureHeaders L)"
  shows "\<exists>hs. fst (headers (module_body L m))
                 = [\<lparr> source = ''/:path((?!api).*)*'', rule_headers = hs \<rparr>]
           \<and> \<lparr> key = ''Referrer-Policy'', val = ''same-origin'' \<rparr> \<in> set hs
           \<and> \<lparr> key = ''Cross-Origin-Opener-Policy'', val = ''same-origin'' \<rparr> \<in> set hs
           \<and> \<lparr> key = ''Cross-Origin-Embedder-Policy'', val = ''same-origin'' \<rparr> \<in> set hs"
proof -
  have "\<lparr> key = ''Referrer-Policy'', val = ''same-origin'' \<rparr>
          \<in> set (createSecureHeaders L (secureHeadersOptions (buildEnv m) (env m)))"
    by (rule renders_policy_headersD(3) [OF assms])
  then show ?thesis
    by (simp add: headers_fst secureHeaders_const_module_body)
qed

subsection \<open>The configuration object\<close>

lemma map_of_rest_without:
  "map_of (rest_without k' obj) k = (if k = k' then None else map_of obj k)"
  by (induction obj) (auto simp: rest_without_def)

lemma nextConfig_keys_distinct: "distinct (map fst (nextConfig m))"
  by (cases "NEXT_BUILD_ENV_OUTPUT (buildEnv m) = ''standalone''") (simp_all add: nextConfig_def)

lemma config_unfold:
  "config L m =
     (if env m ''ANALYZE'' = Some ''true''
      then withBundleAnalyzer L [(''enabled'', JBool True)]
             (if NEXT_BUILD_ENV_SENTRY_ENABLED (buildEnv m)
              then withSentryConfig L (nextConfig m) (sentry_webpack_plugin_options (buildEnv m))
              else rest_without ''sentry'' (nextConfig m))
      else (if NEXT_BUILD_ENV_SENTRY_ENABLED (buildEnv m)
            then withSentryConfig L (nextConfig m) (sentry_webpack_plugin_options (buildEnv m))
            else rest_without ''sentry'' (nextConfig m)))"
  by (simp add: config_def Let_def)

lemma config_wrapper_entry:
  "config_wrapper w \<Longrightarrow> k \<noteq> ''webpack'' \<Longrightarrow> k \<noteq> ''sentry'' \<Longrightarrow> map_of (w c) k = map_of c k"
  unfolding config_wrapper_def by (elim conjE allE [of _ c] allE [of _ k] impE) simp_all

lemma config_wrapper_webpack:
  "config_wrapper w \<Longrightarrow> \<exists>f. map_of (w c) ''webpack'' = Some (JFun f)"
  unfolding config_wrapper_def by (elim conjE allE [of _ c])

lemma sentry_is_wrapper:
  "wrappers_keep_sections L \<Longrightarrow> config_wrapper (\<lambda>c. withSentryConfig L c opts)"
  unfolding wrappers_keep_sections_def by (elim conjE allE [of _ opts])

lemma analyzer_is_wrapper:
  "wrappers_keep_sections L \<Longrightarrow> config_wrapper (withBundleAnalyzer L [(''enabled'', JBool True)])"
  unfolding wrappers_keep_sections_def by (elim conjE)

text \<open>Outside \<open>webpack\<close> and \<open>sentry\<close> the export has the entries of \<open>nextConfig\<close>.\<close>

lemma config_keeps_entry:
  assumes "wrappers_keep_sections L" and "k \<noteq> ''webpack''" and "k \<noteq> ''sentry''"
  shows "map_of (config L m) k = map_of (nextConfig m) k"
proof -
  have sentry: "map_of (withSentryConfig L c opts) k = map_of c k" for c opts
    by (rule config_wrapper_entry [OF sentry_is_wrapper [OF assms(1)] assms(2,3)])
  have analyzer: "map_of (withBundleAnalyzer L [(''enabled'', JBool True)] c) k = map_of c k" for c
    by (rule config_wrapper_entry [OF analyzer_is_wrapper [OF assms(1)] assms(2,3)])
  have plain: "map_of (rest_without ''sentry'' c) k = map_of c k" for c
    using assms(3) by (simp add: map_of_rest_without)
  show ?thesis
    by (simp add: config_unfold analyzer sentry plain)
qed

lemma config_keeps_path:
  assumes "wrappers_keep_sections L" and "k \<noteq> ''webpack''" and "k \<noteq> ''sentry''"
  shows "get_path (config L m) (k # ks) = get_path (nextConfig m) (k # ks)"
proof (cases ks)
  case Nil
  then show ?thesis by (simp add: config_keeps_entry [OF assms])
next
  case (Cons k' ks')
  then show ?thesis by (simp add: config_keeps_entry [OF assms])
qed

lemma config_has_webpack:
  assumes "wrappers_keep_sections L"
  shows "\<exists>f. map_of (config L m) ''webpack'' = Some (JFun f)"
proof -
  have sentry: "\<exists>f. map_of (withSentryConfig L c opts) ''webpack'' = Some (JFun f)" for c opts
    by (rule config_wrapper_webpack [OF sentry_is_wrapper [OF assms]])
  have analyzer:
    "\<exists>f. map_of (withBundleAnalyzer L [(''enabled'', JBool True)] c) ''webpack'' = Some (JFun f)" for c
    by (rule config_wrapper_webpack [OF analyzer_is_wrapper [OF assms]])
  have plain: "\<exists>f. map_of (rest_without ''sentry'' (nextConfig m)) ''webpack'' = Some (JFun f)"
    by (simp add: map_of_rest_without nextConfig_def)
  show ?thesis
  proof (cases "env m ''ANALYZE'' = Some ''true''")
    case True
    then have "config L m = withBundleAnalyzer L [(''enabled'', JBool True)]
             (if NEXT_BUILD_ENV_SENTRY_ENABLED (buildEnv m)
              then withSentryConfig L (nextConfig m) (sentry_webpack_plugin_options (buildEnv m))
              else rest_without ''sentry'' (nextConfig m))"
      by (simp add: config_unfold)
    then show ?thesis using analyzer by (simp only:)
  next
    case False
    show ?thesis
    proof (cases "NEXT_BUILD_ENV_SENTRY_ENABLED (buildEnv m)")
      case True
      with False have "config L m
          = withSentryConfig L (nextConfig m) (sentry_webpack_plugin_options (buildEnv m))"
        by (simp add: config_unfold)
      then show ?thesis using sentry by (simp only:)
    next
      case sentry_off: False
      with False have "config L m = rest_without ''sentry'' (nextConfig m)"
        by (simp add: config_unfold)
      then show ?thesis using plain by (simp only:)
    qed
  qed
qed

lemma nextConfig_standalone:
  "NEXT_BUILD_ENV_OUTPUT (buildEnv m) = ''standalone'' \<Longrightarrow>
     map_of (nextConfig m) ''output'' = Some (JStr ''standalone'')
     \<and> map_of (nextConfig m) ''outputFileTracing'' = Some (JBool True)
     \<and> get_path (nextConfig m) [''experimental'', ''outputFileTracingRoot'']
         = Some (JStr (workspaceRoot m))"
  by (simp add: nextConfig_def experimental_def)

lemma nextConfig_not_standalone:
  "NEXT_BUILD_ENV_OUTPUT (buildEnv m) \<noteq> ''standalone'' \<Longrightarrow>
     map_of (nextConfig m) ''output'' = None
     \<and> map_of (nextConfig m) ''outputFileTracing'' = None
     \<and> get_path (nextConfig m) [''experimental'', ''outputFileTracingRoot''] = None"
  by (simp add: nextConfig_def experimental_def)

text \<open>
  Which entries of \<open>nextConfig\<close> a flag can change: five flags are not read by the
  literal at all, and each of the others is read by its own section only.
\<close>

lemma frame_SOURCEMAPS:
  "k \<noteq> ''productionBrowserSourceMaps'' \<Longrightarrow>
     map_of (nextConfig (m\<lparr>buildEnv := (buildEnv m)\<lparr>NEXT_BUILD_ENV_SOURCEMAPS := v\<rparr>\<rparr>)) k
       = map_of (nextConfig m) k"
  by (simp add: nextConfig_def experimental_def)

lemma frame_CI:
  "k \<noteq> ''onDemandEntries'' \<Longrightarrow>
     map_of (nextConfig (m\<lparr>buildEnv := (buildEnv m)\<lparr>NEXT_BUILD_ENV_CI := v\<rparr>\<rparr>)) k
       = map_of (nextConfig m) k"
  by (simp add: nextConfig_def experimental_def)

lemma frame_OUTPUT:
  "k \<noteq> ''output'' \<Longrightarrow> k \<noteq> ''outputFileTracing'' \<Longrightarrow> k \<noteq> ''experimental'' \<Longrightarrow>
     map_of (nextConfig (m\<lparr>buildEnv := (buildEnv m)\<lparr>NEXT_BUILD_ENV_OUTPUT := v\<rparr>\<rparr>)) k
       = map_of (nextConfig m) k"
  by (simp add: nextConfig_def experimental_def)

lemma frame_TYPECHECK:
  "k \<noteq> ''typescript'' \<Longrightarrow>
     map_of (nextConfig (m\<lparr>buildEnv := (buildEnv m)\<lparr>NEXT_BUILD_ENV_TYPECHECK := v\<rparr>\<rparr>)) k
       = map_of (nextConfig m) k"
  by (simp add: nextConfig_def experimental_def)

lemma frame_TSCONFIG:
  "k \<noteq> ''typescript'' \<Longrightarrow>
     map_of (nextConfig (m\<lparr>buildEnv := (buildEnv m)\<lparr>NEXT_BUILD_ENV_TSCONFIG := v\<rparr>\<rparr>)) k
       = map_of (nextConfig m) k"
  by (simp add: nextConfig_def experimental_def)

lemma frame_LINT:
  "k \<noteq> ''eslint'' \<Longrightarrow>
     map_of (nextConfig (m\<lparr>buildEnv := (buildEnv m)\<lparr>NEXT_BUILD_ENV_LINT := v\<rparr>\<rparr>)) k
       = map_of (nextConfig m) k"
  by (simp add: nextConfig_def experimental_def)

lemma frame_unread:
  "nextConfig (m\<lparr>buildEnv := (buildEnv m)\<lparr>NEXT_BUILD_ENV_CSP := v\<rparr>\<rparr>) = nextConfig m"
  "nextConfig (m\<lparr>buildEnv := (buildEnv m)\<lparr>NEXT_BUILD_ENV_SENTRY_DEBUG := v\<rparr>\<rparr>) = nextConfig m"
  "nextConfig (m\<lparr>buildEnv := (buildEnv m)\<lparr>NEXT_BUILD_ENV_SENTRY_TRACING := v\<rparr>\<rparr>) = nextConfig m"
  "nextConfig (m\<lparr>buildEnv := (buildEnv m)\<lparr>NEXT_BUILD_ENV_SENTRY_ENABLED := v\<rparr>\<rparr>) = nextConfig m"
  "nextConfig (m\<lparr>buildEnv := (buildEnv m)\<lparr>NEXT_BUILD_ENV_SENTRY_UPLOAD_DRY_RUN := v\<rparr>\<rparr>) = nextConfig m"
  by (simp_all add: nextConfig_def experimental_def)

lemma nextConfig_images: "map_of (nextConfig m) ''images'' = Some images"
  by (simp add: nextConfig_def)

lemma nextConfig_maxInactiveAge:
  "get_path (nextConfig m) [''onDemandEntries'', ''maxInactiveAge'']
     = Some (JNum (if NEXT_BUILD_ENV_CI (buildEnv m) then 3600000 else 25000))"
  by (simp add: nextConfig_def)

lemma nextConfig_APP_NAME:
  "name (packageJson m) = None \<Longrightarrow>
     get_path (nextConfig m) [''env'', ''APP_NAME''] = Some (JStr ''not-in-package.json'')"
  by (simp add: nextConfig_def nullish_def)

lemma nextConfig_APP_VERSION:
  "version (packageJson m) = None \<Longrightarrow>
     get_path (nextConfig m) [''env'', ''APP_VERSION''] = Some (JStr ''not-in-package.json'')"
  by (simp add: nextConfig_def nullish_def)

subsection \<open>The documented third-party functions meet what is asked of them\<close>

lemma render_strict_directives:
  "NEXT_BUILD_ENV_CSP b \<Longrightarrow> render_directives (csp_directives b) \<noteq> []"
  by (simp add: csp_directives_def render_directives_def render_directive_def directive_name_def
      List.map_filter_simps)

lemma documented_on_options:
  "createSecureHeaders_documented (secureHeadersOptions b e) =
     \<lparr> key = ''Content-Security-Policy'', val = render_directives (csp_directives b) \<rparr>
     # force_https_redirect_header (map_of (secureHeadersOptions b e) ''forceHTTPSRedirect'')
     @ [\<lparr> key = ''X-Frame-Options'', val = ''deny'' \<rparr>,
        \<lparr> key = ''X-Download-Options'', val = ''noopen'' \<rparr>,
        \<lparr> key = ''X-Content-Type-Options'', val = ''nosniff'' \<rparr>,
        \<lparr> key = ''Referrer-Policy'', val = ''same-origin'' \<rparr>,
        \<lparr> key = ''X-XSS-Protection'', val = ''1'' \<rparr>]"
  by (simp add: createSecureHeaders_documented_def secureHeadersOptions_def
      content_security_policy_header_def referrer_policy_header_def)

lemma force_https_redirect_header_key:
  "h \<in> set (force_https_redirect_header option) \<Longrightarrow> key h = ''Strict-Transport-Security''"
  by (auto simp: force_https_redirect_header_def split: option.splits js.splits list.splits bool.splits)

lemma documented_renders_policy_headers:
  "renders_policy_headers createSecureHeaders_documented"
  unfolding renders_policy_headers_def
proof (intro allI impI conjI)
  fix b e d
  assume "get_path (secureHeadersOptions b e) [''contentSecurityPolicy'', ''directives''] = Some (JObj d)"
  then have d: "d = csp_directives b"
    by (simp only: options_directives) simp
  {
    assume "d \<noteq> []"
    then have "NEXT_BUILD_ENV_CSP b"
      by (simp add: d csp_directives_empty_iff)
    then have "render_directives (csp_directives b) \<noteq> []"
      by (rule render_strict_directives)
    then show "\<exists>h\<in>set (createSecureHeaders_documented (secureHeadersOptions b e)).
        key h = ''Content-Security-Policy'' \<and> val h \<noteq> []"
      by (simp only: documented_on_options) simp
  }
  {
    assume "d = []"
    then have empty: "render_directives (csp_directives b) = []"
      by (simp add: d [symmetric] render_directives_def List.map_filter_simps)
    show "\<forall>h\<in>set (createSecureHeaders_documented (secureHeadersOptions b e)).
        key h = ''Content-Security-Policy'' \<longrightarrow> val h = []"
      by (simp only: documented_on_options empty) (auto dest: force_https_redirect_header_key)
  }
  show "\<lparr> key = ''Referrer-Policy'', val = ''same-origin'' \<rparr>
      \<in> set (createSecureHeaders_documented (secureHeadersOptions b e))"
    by (simp only: documented_on_options) simp
qed

lemma map_of_replaced:
  "map_of (map (\<lambda>e. if fst e = k then (k, v) else e) obj) k
     = (if k \<in> fst ` set obj then Some v else None)"
  by (induction obj) (auto simp: image_iff)

lemma map_of_not_replaced:
  "k' \<noteq> k \<Longrightarrow> map_of (map (\<lambda>e. if fst e = k then (k, v) else e) obj) k' = map_of obj k'"
  by (induction obj) auto

lemma map_of_js_assign:
  "map_of (js_assign obj k v) k' = (if k' = k then Some v else map_of obj k')"
proof (cases "k \<in> fst ` set obj")
  case True
  then show ?thesis by (simp add: js_assign_def map_of_replaced map_of_not_replaced)
next
  case False
  then have "map_of obj k = None" by (simp add: map_of_eq_None_iff)
  with False show ?thesis by (auto simp: js_assign_def map_add_def split: option.splits)
qed

lemma documented_withSentryConfig: "config_wrapper (\<lambda>c. withSentryConfig_documented c opts)"
  unfolding config_wrapper_def
  by (simp add: withSentryConfig_documented_def map_of_js_assign map_of_rest_without wrapped_webpack_def)

lemma documented_withBundleAnalyzer:
  "config_wrapper (withBundleAnalyzer_documented [(''enabled'', JBool True)])"
  unfolding config_wrapper_def
  by (simp add: withBundleAnalyzer_documented_def map_of_js_assign wrapped_webpack_def)

lemma documented_wrappers_keep_sections: "wrappers_keep_sections documented_libs"
  unfolding wrappers_keep_sections_def
  by (simp add: documented_libs_def documented_withSentryConfig documented_withBundleAnalyzer)

subsection \<open>Validation of the environment\<close>

lemma getServerRuntimeEnv_fails:
  "offending schema e flag \<Longrightarrow>
     \<exists>err. getServerRuntimeEnv schema e = Inl err
        \<and> offending schema e (named_flag err) \<and> describes err e"
proof (induction schema)
  case Nil
  then show ?case by (simp add: offending_def)
next
  case (Cons entry schema)
  obtain f wf where entry: "entry = (f, wf)" by (cases entry)
  show ?case
  proof (cases "e f")
    case None
    then show ?thesis
      by (auto simp: entry offending_def)
  next
    case (Some v)
    show ?thesis
    proof (cases "wf v")
      case False
      with Some show ?thesis
        by (auto simp: entry offending_def)
    next
      case True
      with Some Cons.prems have "offending schema e flag"
        by (auto simp: entry offending_def)
      then obtain err where err: "getServerRuntimeEnv schema e = Inl err"
          "offending schema e (named_flag err)" "describes err e"
        using Cons.IH by auto
      from err(2) have "offending (entry # schema) e (named_flag err)"
        by (auto simp: offending_def)
      with err(1,3) Some True show ?thesis
        by (simp add: entry)
    qed
  qed
qed

text \<open>With no offending flag the validation passes, and the module is evaluated.\<close>

lemma getServerRuntimeEnv_succeeds:
  "\<forall>flag. \<not> offending schema e flag \<Longrightarrow> \<exists>vs. getServerRuntimeEnv schema e = Inr vs"
proof (induction schema)
  case Nil
  then show ?case by simp
next
  case (Cons entry schema)
  obtain f wf where entry: "entry = (f, wf)" by (cases entry)
  from Cons.prems have here: "\<not> offending (entry # schema) e f" by simp
  then obtain v where v: "e f = Some v" "wf v"
    by (cases "e f") (auto simp: entry offending_def)
  have "\<forall>flag. \<not> offending schema e flag"
    using Cons.prems by (auto simp: offending_def)
  then obtain vs where "getServerRuntimeEnv schema e = Inr vs"
    using Cons.IH by auto
  with v show ?case by (simp add: entry)
qed

lemma load_module_succeeds:
  "\<forall>flag. \<not> offending schema (env m) flag \<Longrightarrow> load_module L schema m = Inr (module_body L m)"
  using getServerRuntimeEnv_succeeds [of schema "env m"] by (auto simp: load_module_def)

subsection \<open>The paths the pattern matches\<close>

lemma lower_slash: "lower CHR ''/'' = CHR ''/''"
  by (simp add: lower_def)

lemma remainders_literal:
  "remainders (literal l) s
     = (if map lower (take (length l) s) = map lower l then [drop (length l) s] else [])"
proof (induction l arbitrary: s)
  case Nil
  then show ?case by simp
next
  case (Cons c l)
  then show ?case by (cases s) auto
qed

lemma iterate_to_end:
  assumes f: "\<And>x xs. ok x \<Longrightarrow> f (x # xs) = [xs]"
  shows "\<forall>c \<in> set s. ok c \<Longrightarrow> length s \<le> n \<Longrightarrow> [] \<in> set (iterate f n s)"
proof (induction s arbitrary: n)
  case Nil
  then show ?case by (cases n) simp_all
next
  case (Cons x xs)
  then obtain n' where n: "n = Suc n'" "length xs \<le> n'"
    by (cases n) auto
  from Cons.prems(1) have "[] \<in> set (iterate f n' xs)"
    by (intro Cons.IH n(2)) simp
  moreover from Cons.prems(1) have "f (x # xs) = [xs]"
    by (intro f) simp
  ultimately show ?case
    by (simp add: n(1))
qed

lemma lower_api: "map lower ''api'' = ''api''"
  by (simp add: lower_def)

text \<open>No path that begins with \<open>/api\<close>, in any case, is matched.\<close>

lemma path_starting_with_api_not_matched:
  assumes "map lower (take 4 path) = ''/api''"
  shows "\<not> source_matches path"
proof -
  from assms have "length (map lower (take 4 path)) = length ''/api''"
    by (simp only:)
  then have "length (take 4 path) = 4"
    by simp
  then obtain x rest where path: "path = x # rest"
    by (cases path) auto
  from assms have "lower x # map lower (take 3 rest) = ''/api''"
    by (simp add: path)
  then have x: "lower x = CHR ''/''" and rest: "map lower (take 3 rest) = ''api''"
    by simp_all
  have "length ''api'' = 3"
    by simp
  then have "remainders (literal ''api'') rest = [drop 3 rest]"
    using rest by (simp only: remainders_literal lower_api simp_thms if_True)
  then have look: "remainders (NotAhead (literal ''api'')) rest = []"
    by (simp del: literal.simps)
  have first: "remainders (Chr CHR ''/'') path = [rest]"
    using x by (simp add: path lower_slash)
  have pattern: "remainders path_pattern rest = []"
    unfolding path_pattern_def by (simp only: remainders.simps(4) look) simp
  have inner: "remainders (Seq path_pattern (Star (Seq (Chr CHR ''/'') path_pattern))) rest = []"
    by (simp only: remainders.simps(4) pattern) simp
  have "remainders (Seq (Chr CHR ''/'')
      (Seq path_pattern (Star (Seq (Chr CHR ''/'') path_pattern)))) path = []"
    by (simp only: remainders.simps(4) first) (simp add: inner del: remainders.simps)
  then have "remainders source_regexp path = [path]"
    unfolding source_regexp_def by (simp only: remainders.simps(5)) simp
  then show ?thesis
    by (simp add: source_matches_def matches_whole_def path)
qed

lemma api_routes_not_matched: "is_api_route path \<Longrightarrow> \<not> source_matches path"
proof (rule path_starting_with_api_not_matched)
  assume "is_api_route path"
  then consider "path = ''/api''" | "take 5 path = ''/api/''"
    by (auto simp: is_api_route_def)
  then have "take 4 path = ''/api''"
  proof cases
    case 1
    then show ?thesis by simp
  next
    case 2
    then have "take 4 (take 5 path) = take 4 ''/api/''" by (simp only:)
    then show ?thesis by (simp add: min_def)
  qed
  then show "map lower (take 4 path) = ''/api''"
    by (simp add: lower_def)
qed

text \<open>Every other path that begins with \<open>/\<close> and has no line terminator is matched.\<close>

lemma other_paths_matched:
  assumes "map lower (take 3 rest) \<noteq> ''api''"
    and "\<forall>c \<in> set rest. c \<noteq> CHR 0x0A \<and> c \<noteq> CHR 0x0D"
  shows "source_matches (CHR ''/'' # rest)"
proof -
  have "length ''api'' = 3"
    by simp
  then have "remainders (literal ''api'') rest = []"
    using assms(1) by (simp only: remainders_literal lower_api if_False)
  then have look: "remainders (NotAhead (literal ''api'')) rest = [rest]"
    by (simp only: remainders.simps simp_thms if_True)
  have "[] \<in> set (iterate (remainders AnyChar) (length rest) rest)"
    by (rule iterate_to_end [where ok = "\<lambda>c. c \<noteq> CHR 0x0A \<and> c \<noteq> CHR 0x0D", OF _ assms(2) order_refl])
       simp
  then have "[] \<in> set (remainders (Star AnyChar) rest)"
    by (simp only: remainders.simps)
  then have p: "[] \<in> set (remainders path_pattern rest)"
    unfolding path_pattern_def by (simp only: remainders.simps(4) look) simp
  have "[] \<in> set (remainders (Star (Seq (Chr CHR ''/'') path_pattern)) [])"
    by simp
  with p have "[] \<in> set (remainders
      (Seq path_pattern (Star (Seq (Chr CHR ''/'') path_pattern))) rest)"
    by (simp only: remainders.simps(4)) (simp del: remainders.simps, blast)
  moreover have "remainders (Chr CHR ''/'') (CHR ''/'' # rest) = [rest]"
    by simp
  ultimately have "[] \<in> set (remainders (Seq (Chr CHR ''/'')
      (Seq path_pattern (Star (Seq (Chr CHR ''/'') path_pattern)))) (CHR ''/'' # rest))"
    by (simp only: remainders.simps(4) [of "Chr CHR ''/''"]) simp
  then show ?thesis
    by (simp add: source_matches_def matches_whole_def source_regexp_def del: remainders.simps(4))
qed

subsection \<open>Calls on the heap\<close>

lemma cell_at_append: "cell_at h a = Some c \<Longrightarrow> cell_at (h @ ext) a = Some c"
  by (auto simp: cell_at_def nth_append split: if_splits)

lemma cell_at_new: "k < length ext \<Longrightarrow> cell_at (h @ ext) (length h + k) = Some (ext ! k)"
  by (simp add: cell_at_def)

lemma elements_append: "elements h a = Some xs \<Longrightarrow> elements (h @ ext) a = Some xs"
  by (auto simp: elements_def cell_at_append split: option.splits cell.splits)

lemma read_header_append: "read_header h v = Some x \<Longrightarrow> read_header (h @ ext) v = Some x"
  by (auto simp: read_header_def cell_at_append split: jsval.splits option.splits cell.splits)

lemma those_map_mono:
  assumes "\<And>v x. f v = Some x \<Longrightarrow> g v = Some x"
  shows "those (map f vs) = Some xs \<Longrightarrow> those (map g vs) = Some xs"
proof (induction vs arbitrary: xs)
  case Nil
  then show ?case by simp
next
  case (Cons v vs)
  then show ?case
    by (auto simp: assms split: option.splits)
qed

lemma those_map_append:
  "those (map f vs) = Some xs \<Longrightarrow> those (map f ws) = Some ys \<Longrightarrow>
     those (map f (vs @ ws)) = Some (xs @ ys)"
  by (induction vs arbitrary: xs) (auto split: option.splits)

lemma read_headers_append: "read_headers h v = Some hs \<Longrightarrow> read_headers (h @ ext) v = Some hs"
proof -
  assume a: "read_headers h v = Some hs"
  then obtain a' xs where v: "v = Ref a'" and xs: "elements h a' = Some xs"
      and hs: "those (map (read_header h) xs) = Some hs"
    by (auto simp: read_headers_def split: jsval.splits option.splits)
  have "those (map (read_header (h @ ext)) xs) = Some hs"
    using hs by (rule those_map_mono [rotated]) (rule read_header_append)
  then show ?thesis
    by (simp add: read_headers_def v elements_append [OF xs])
qed

lemma read_rule_append: "read_rule h v = Some r \<Longrightarrow> read_rule (h @ ext) v = Some r"
  by (auto simp: read_rule_def cell_at_append read_headers_append
      split: jsval.splits option.splits cell.splits)

lemma read_rules_append: "read_rules h v = Some rs \<Longrightarrow> read_rules (h @ ext) v = Some rs"
proof -
  assume a: "read_rules h v = Some rs"
  then obtain a' xs where v: "v = Ref a'" and xs: "elements h a' = Some xs"
      and rs: "those (map (read_rule h) xs) = Some rs"
    by (auto simp: read_rules_def split: jsval.splits option.splits)
  have "those (map (read_rule (h @ ext)) xs) = Some rs"
    using rs by (rule those_map_mono [rotated]) (rule read_rule_append)
  then show ?thesis
    by (simp add: read_rules_def v elements_append [OF xs])
qed

text \<open>The five cells a call allocates.\<close>

lemma headers_call_unfold:
  assumes "elements h a = Some spread"
  shows "headers_call a h =
     Some (Ref (length h + 4),
           h @ [Obj [(''key'', Str ''Cross-Origin-Opener-Policy''), (''value'', Str ''same-origin'')],
                Obj [(''key'', Str ''Cross-Origin-Embedder-Policy''), (''value'', Str ''same-origin'')],
                Arr (spread @ [Ref (length h), Ref (length h + 1)]),
                Obj [(''source'', Str ''/:path((?!api).*)*''), (''headers'', Ref (length h + 2))],
                Arr [Ref (length h + 3)]])"
  by (simp add: headers_call_def assms alloc_def)

lemma headers_call_result:
  assumes "read_headers h (Ref a) = Some hs"
  shows "\<exists>r ext. headers_call a h = Some (r, h @ ext)
           \<and> read_rules (h @ ext) r =
               Some [\<lparr> source = ''/:path((?!api).*)*'',
                       rule_headers = hs
                         @ [\<lparr> key = ''Cross-Origin-Opener-Policy'', val = ''same-origin'' \<rparr>,
                            \<lparr> key = ''Cross-Origin-Embedder-Policy'', val = ''same-origin'' \<rparr>] \<rparr>]"
proof -
  from assms obtain spread where spread: "elements h a = Some spread"
      and hs: "those (map (read_header h) spread) = Some hs"
    by (auto simp: read_headers_def split: option.splits)
  let ?ext = "[Obj [(''key'', Str ''Cross-Origin-Opener-Policy''), (''value'', Str ''same-origin'')],
                Obj [(''key'', Str ''Cross-Origin-Embedder-Policy''), (''value'', Str ''same-origin'')],
                Arr (spread @ [Ref (length h), Ref (length h + 1)]),
                Obj [(''source'', Str ''/:path((?!api).*)*''), (''headers'', Ref (length h + 2))],
                Arr [Ref (length h + 3)]]"
  let ?h' = "h @ ?ext"
  have call: "headers_call a h = Some (Ref (length h + 4), ?h')"
    by (rule headers_call_unfold [OF spread])
  have c0: "cell_at ?h' (length h + 0) = Some (?ext ! 0)" by (rule cell_at_new) simp
  have c1: "cell_at ?h' (length h + 1) = Some (?ext ! 1)" by (rule cell_at_new) simp
  have c2: "cell_at ?h' (length h + 2) = Some (?ext ! 2)" by (rule cell_at_new) simp
  have c3: "cell_at ?h' (length h + 3) = Some (?ext ! 3)" by (rule cell_at_new) simp
  have c4: "cell_at ?h' (length h + 4) = Some (?ext ! 4)" by (rule cell_at_new) simp
  have old: "those (map (read_header ?h') spread) = Some hs"
    using hs by (rule those_map_mono [rotated]) (rule read_header_append)
  have new: "those (map (read_header ?h') [Ref (length h), Ref (length h + 1)])
      = Some [\<lparr> key = ''Cross-Origin-Opener-Policy'', val = ''same-origin'' \<rparr>,
              \<lparr> key = ''Cross-Origin-Embedder-Policy'', val = ''same-origin'' \<rparr>]"
    using c0 c1 by (simp add: read_header_def)
  have list: "read_headers ?h' (Ref (length h + 2))
      = Some (hs @ [\<lparr> key = ''Cross-Origin-Opener-Policy'', val = ''same-origin'' \<rparr>,
                    \<lparr> key = ''Cross-Origin-Embedder-Policy'', val = ''same-origin'' \<rparr>])"
    using c2 those_map_append [OF old new] by (simp add: read_headers_def elements_def)
  have rule: "read_rule ?h' (Ref (length h + 3))
      = Some \<lparr> source = ''/:path((?!api).*)*'',
               rule_headers = hs
                 @ [\<lparr> key = ''Cross-Origin-Opener-Policy'', val = ''same-origin'' \<rparr>,
                    \<lparr> key = ''Cross-Origin-Embedder-Policy'', val = ''same-origin'' \<rparr>] \<rparr>"
    using c3 list by (simp add: read_rule_def)
  have "read_rules ?h' (Ref (length h + 4))
      = Some [\<lparr> source = ''/:path((?!api).*)*'',
               rule_headers = hs
                 @ [\<lparr> key = ''Cross-Origin-Opener-Policy'', val = ''same-origin'' \<rparr>,
                    \<lparr> key = ''Cross-Origin-Embedder-Policy'', val = ''same-origin'' \<rparr>] \<rparr>]"
    using c4 rule by (simp add: read_rules_def elements_def)
  with call show ?thesis by blast
qed

section \<open>The claims\<close>

text \<open>
  C1. The header list \<open>headers()\<close> returns is what \<open>createSecureHeaders\<close> makes of the
  module's options, followed by the two cross-origin isolation headers. With the
  strict-policy flag \<open>NEXT_BUILD_ENV_CSP\<close> true the options carry the seven directives
  and the list has a \<open>Content-Security-Policy\<close> header with a value. With the flag
  false the options carry an empty directive set, the list has no
  \<open>Content-Security-Policy\<close> header with a value, and the two cross-origin isolation
  headers are still in it. The library is any \<open>createSecureHeaders\<close> that renders the
  policy headers of these options.
\<close>

theorem strict_flag_controls_policy:
  assumes "renders_policy_headers (createSecureHeaders L)"
  shows "\<exists>hs. fst (headers (module_body L m))
                 = [\<lparr> source = ''/:path((?!api).*)*'', rule_headers = hs \<rparr>]
           \<and> hs = createSecureHeaders L (secureHeadersOptions (buildEnv m) (env m))
                  @ [\<lparr> key = ''Cross-Origin-Opener-Policy'', val = ''same-origin'' \<rparr>,
                     \<lparr> key = ''Cross-Origin-Embedder-Policy'', val = ''same-origin'' \<rparr>]
           \<and> (NEXT_BUILD_ENV_CSP (buildEnv m) \<longrightarrow>
                (\<exists>d. get_path (secureHeadersOptions (buildEnv m) (env m))
                        [''contentSecurityPolicy'', ''directives''] = Some (JObj d)
                   \<and> map fst d = [''defaultSrc'', ''styleSrc'', ''scriptSrc'', ''frameSrc'',
                                   ''connectSrc'', ''imgSrc'', ''workerSrc''])
                \<and> (\<exists>h \<in> set hs. key h = ''Content-Security-Policy'' \<and> val h \<noteq> []))
           \<and> (\<not> NEXT_BUILD_ENV_CSP (buildEnv m) \<longrightarrow>
                secureHeadersOptions (buildEnv m) (env m)
                  = [(''contentSecurityPolicy'', JObj [(''directives'', JObj [])]),
                     (''referrerPolicy'', JStr ''same-origin'')]
                \<and> (\<forall>h \<in> set hs. key h = ''Content-Security-Policy'' \<longrightarrow> val h = [])
                \<and> \<lparr> key = ''Cross-Origin-Opener-Policy'', val = ''same-origin'' \<rparr> \<in> set hs
                \<and> \<lparr> key = ''Cross-Origin-Embedder-Policy'', val = ''same-origin'' \<rparr> \<in> set hs)"
proof -
  let ?opts = "secureHeadersOptions (buildEnv m) (env m)"
  let ?hs = "createSecureHeaders L ?opts
      @ [\<lparr> key = ''Cross-Origin-Opener-Policy'', val = ''same-origin'' \<rparr>,
         \<lparr> key = ''Cross-Origin-Embedder-Policy'', val = ''same-origin'' \<rparr>]"
  have dir: "get_path ?opts [''contentSecurityPolicy'', ''directives'']
      = Some (JObj (csp_directives (buildEnv m)))"
    by (rule options_directives)
  have returned: "fst (headers (module_body L m))
      = [\<lparr> source = ''/:path((?!api).*)*'', rule_headers = ?hs \<rparr>]"
    by (simp add: headers_fst secureHeaders_const_module_body)
  have on: "\<exists>h \<in> set ?hs. key h = ''Content-Security-Policy'' \<and> val h \<noteq> []"
    if "NEXT_BUILD_ENV_CSP (buildEnv m)"
  proof -
    from that have "csp_directives (buildEnv m) \<noteq> []"
      by (simp add: csp_directives_empty_iff)
    from renders_policy_headersD(1) [OF assms this, of "env m"]
    obtain h where "h \<in> set (createSecureHeaders L ?opts)"
        "key h = ''Content-Security-Policy''" "val h \<noteq> []"
      by (elim bexE conjE)
    then show ?thesis by (intro bexI [of _ h] conjI) simp_all
  qed
  have off: "\<forall>h \<in> set ?hs. key h = ''Content-Security-Policy'' \<longrightarrow> val h = []"
    if "\<not> NEXT_BUILD_ENV_CSP (buildEnv m)"
  proof -
    from that have "csp_directives (buildEnv m) = []"
      by (simp add: csp_directives_empty_iff)
    from renders_policy_headersD(2) [OF assms this, of "env m"]
    have "\<forall>h \<in> set (createSecureHeaders L ?opts). key h = ''Content-Security-Policy'' \<longrightarrow> val h = []" .
    then show ?thesis by simp
  qed
  show ?thesis
  proof (intro exI [of _ ?hs] conjI impI)
    show "fst (headers (module_body L m))
        = [\<lparr> source = ''/:path((?!api).*)*'', rule_headers = ?hs \<rparr>]"
      by (rule returned)
    show "?hs = ?hs" ..
  next
    assume strict: "NEXT_BUILD_ENV_CSP (buildEnv m)"
    show "\<exists>d. get_path ?opts [''contentSecurityPolicy'', ''directives''] = Some (JObj d)
        \<and> map fst d = [''defaultSrc'', ''styleSrc'', ''scriptSrc'', ''frameSrc'',
                        ''connectSrc'', ''imgSrc'', ''workerSrc'']"
      by (intro exI [of _ "csp_directives (buildEnv m)"] conjI dir csp_directives_keys [OF strict])
    show "\<exists>h \<in> set ?hs. key h = ''Content-Security-Policy'' \<and> val h \<noteq> []"
      by (rule on [OF strict])
  next
    assume loose: "\<not> NEXT_BUILD_ENV_CSP (buildEnv m)"
    show "?opts = [(''contentSecurityPolicy'', JObj [(''directives'', JObj [])]),
                   (''referrerPolicy'', JStr ''same-origin'')]"
      by (rule options_without_policy [OF loose])
    show "\<forall>h \<in> set ?hs. key h = ''Content-Security-Policy'' \<longrightarrow> val h = []"
      by (rule off [OF loose])
    show "\<lparr> key = ''Cross-Origin-Opener-Policy'', val = ''same-origin'' \<rparr> \<in> set ?hs"
      by simp
    show "\<lparr> key = ''Cross-Origin-Embedder-Policy'', val = ''same-origin'' \<rparr> \<in> set ?hs"
      by simp
  qed
qed

theorem strict_flag_controls_policy_witness:
  "renders_policy_headers (createSecureHeaders documented_libs)
   \<and> NEXT_BUILD_ENV_CSP (buildEnv sample_inputs)
   \<and> (\<exists>hs. fst (headers (module_body documented_libs sample_inputs))
                = [\<lparr> source = ''/:path((?!api).*)*'', rule_headers = hs \<rparr>]
          \<and> hs = createSecureHeaders documented_libs
                    (secureHeadersOptions (buildEnv sample_inputs) (env sample_inputs))
                  @ [\<lparr> key = ''Cross-Origin-Opener-Policy'', val = ''same-origin'' \<rparr>,
                     \<lparr> key = ''Cross-Origin-Embedder-Policy'', val = ''same-origin'' \<rparr>]
          \<and> (\<exists>d. get_path (secureHeadersOptions (buildEnv sample_inputs) (env sample_inputs))
                     [''contentSecurityPolicy'', ''directives''] = Some (JObj d)
                \<and> map fst d = [''defaultSrc'', ''styleSrc'', ''scriptSrc'', ''frameSrc'',
                                ''connectSrc'', ''imgSrc'', ''workerSrc''])
          \<and> (\<exists>h \<in> set hs. key h = ''Content-Security-Policy'' \<and> val h \<noteq> []))
   \<and> \<not> NEXT_BUILD_ENV_CSP
         (buildEnv (sample_inputs\<lparr>buildEnv := sample_buildEnv\<lparr>NEXT_BUILD_ENV_CSP := False\<rparr>\<rparr>))
   \<and> (\<exists>hs. fst (headers (module_body documented_libs
                 (sample_inputs\<lparr>buildEnv := sample_buildEnv\<lparr>NEXT_BUILD_ENV_CSP := False\<rparr>\<rparr>)))
                = [\<lparr> source = ''/:path((?!api).*)*'', rule_headers = hs \<rparr>]
          \<and> hs = createSecureHeaders documented_libs
                    (secureHeadersOptions
                       (buildEnv (sample_inputs\<lparr>buildEnv := sample_buildEnv\<lparr>NEXT_BUILD_ENV_CSP := False\<rparr>\<rparr>))
                       (env (sample_inputs\<lparr>buildEnv := sample_buildEnv\<lparr>NEXT_BUILD_ENV_CSP := False\<rparr>\<rparr>)))
                  @ [\<lparr> key = ''Cross-Origin-Opener-Policy'', val = ''same-origin'' \<rparr>,
                     \<lparr> key = ''Cross-Origin-Embedder-Policy'', val = ''same-origin'' \<rparr>]
          \<and> secureHeadersOptions
                (buildEnv (sample_inputs\<lparr>buildEnv := sample_buildEnv\<lparr>NEXT_BUILD_ENV_CSP := False\<rparr>\<rparr>))
                (env (sample_inputs\<lparr>buildEnv := sample_buildEnv\<lparr>NEXT_BUILD_ENV_CSP := False\<rparr>\<rparr>))
              = [(''contentSecurityPolicy'', JObj [(''directives'', JObj [])]),
                 (''referrerPolicy'', JStr ''same-origin'')]
          \<and> (\<forall>h \<in> set hs. key h = ''Content-Security-Policy'' \<longrightarrow> val h = [])
          \<and> \<lparr> key = ''Cross-Origin-Opener-Policy'', val = ''same-origin'' \<rparr> \<in> set hs
          \<and> \<lparr> key = ''Cross-Origin-Embedder-Policy'', val = ''same-origin'' \<rparr> \<in> set hs)"
proof -
  let ?off = "sample_inputs\<lparr>buildEnv := sample_buildEnv\<lparr>NEXT_BUILD_ENV_CSP := False\<rparr>\<rparr>"
  have lib: "renders_policy_headers (createSecureHeaders documented_libs)"
    by (simp add: documented_libs_def documented_renders_policy_headers)
  have on: "NEXT_BUILD_ENV_CSP (buildEnv sample_inputs)"
    by (simp add: sample_inputs_def sample_buildEnv_def)
  have off: "\<not> NEXT_BUILD_ENV_CSP (buildEnv ?off)"
    by simp
  from strict_flag_controls_policy [OF lib, of sample_inputs]
    strict_flag_controls_policy [OF lib, of ?off] lib on off
  show ?thesis by (simp only: simp_thms)
qed

text \<open>
  C2 as stated fails. With the strict-policy flag true in both, \<open>NODE_ENV\<close> set to
  \<open>production\<close> and to \<open>development\<close> give different options objects
  (\<open>forceHTTPSRedirect\<close> is passed in production only), and with the documented
  \<open>createSecureHeaders\<close> different header lists.
\<close>

theorem node_env_changes_headers:
  "NEXT_BUILD_ENV_CSP (buildEnv sample_inputs)
     = NEXT_BUILD_ENV_CSP (buildEnv (sample_inputs\<lparr>env := [''NODE_ENV'' \<mapsto> ''development'']\<rparr>))
   \<and> secureHeadersOptions (buildEnv sample_inputs) (env sample_inputs)
     \<noteq> secureHeadersOptions (buildEnv sample_inputs) [''NODE_ENV'' \<mapsto> ''development'']
   \<and> fst (headers (module_body documented_libs sample_inputs))
     \<noteq> fst (headers (module_body documented_libs
                (sample_inputs\<lparr>env := [''NODE_ENV'' \<mapsto> ''development'']\<rparr>)))"
  by (simp add: headers_def module_body_def documented_libs_def sample_inputs_def sample_buildEnv_def
     secureHeaders_def secureHeadersOptions_def createSecureHeaders_documented_def
     force_https_redirect_header_def strict_transport_security_def show_nat.simps)

text \<open>
  C2, amended. The header list \<open>headers()\<close> returns is a function of the strict-policy
  flag and, when the flag is true, of whether \<open>NODE_ENV\<close> is \<open>production\<close>: two
  evaluations of the module that agree on these (and use the same
  \<open>createSecureHeaders\<close>) return the same ordered list, whatever the other flags,
  environment variables and inputs are. With the flag false the list does not vary
  with \<open>NODE_ENV\<close>.
\<close>

theorem headers_depend_on_flag_and_production:
  assumes "NEXT_BUILD_ENV_CSP (buildEnv m1) = NEXT_BUILD_ENV_CSP (buildEnv m2)"
    and "NEXT_BUILD_ENV_CSP (buildEnv m1) \<Longrightarrow>
           (env m1 ''NODE_ENV'' = Some ''production'') = (env m2 ''NODE_ENV'' = Some ''production'')"
    and "createSecureHeaders L1 = createSecureHeaders L2"
  shows "fst (headers (module_body L1 m1)) = fst (headers (module_body L2 m2))"
proof -
  have "secureHeadersOptions (buildEnv m1) (env m1) = secureHeadersOptions (buildEnv m2) (env m2)"
    using assms(1,2) by (auto simp: secureHeadersOptions_def csp_directives_def)
  then show ?thesis
    using assms(3) by (simp add: headers_fst secureHeaders_const_module_body)
qed

theorem headers_depend_on_flag_and_production_witness:
  "NEXT_BUILD_ENV_CSP (buildEnv sample_inputs)
     = NEXT_BUILD_ENV_CSP (buildEnv
         (sample_inputs\<lparr>buildEnv := sample_buildEnv\<lparr>NEXT_BUILD_ENV_CI := True\<rparr>,
                         env := [''NODE_ENV'' \<mapsto> ''production'', ''ANALYZE'' \<mapsto> ''true''],
                         workspaceRoot := ''/srv''\<rparr>))
   \<and> (env sample_inputs ''NODE_ENV'' = Some ''production'')
     = (env (sample_inputs\<lparr>buildEnv := sample_buildEnv\<lparr>NEXT_BUILD_ENV_CI := True\<rparr>,
                         env := [''NODE_ENV'' \<mapsto> ''production'', ''ANALYZE'' \<mapsto> ''true''],
                         workspaceRoot := ''/srv''\<rparr>) ''NODE_ENV'' = Some ''production'')
   \<and> fst (headers (module_body documented_libs sample_inputs))
     = fst (headers (module_body documented_libs
         (sample_inputs\<lparr>buildEnv := sample_buildEnv\<lparr>NEXT_BUILD_ENV_CI := True\<rparr>,
                         env := [''NODE_ENV'' \<mapsto> ''production'', ''ANALYZE'' \<mapsto> ''true''],
                         workspaceRoot := ''/srv''\<rparr>)))"
proof -
  let ?m = "sample_inputs\<lparr>buildEnv := sample_buildEnv\<lparr>NEXT_BUILD_ENV_CI := True\<rparr>,
                         env := [''NODE_ENV'' \<mapsto> ''production'', ''ANALYZE'' \<mapsto> ''true''],
                         workspaceRoot := ''/srv''\<rparr>"
  have flag: "NEXT_BUILD_ENV_CSP (buildEnv sample_inputs) = NEXT_BUILD_ENV_CSP (buildEnv ?m)"
    by (simp add: sample_inputs_def sample_buildEnv_def)
  have prod: "(env sample_inputs ''NODE_ENV'' = Some ''production'')
      = (env ?m ''NODE_ENV'' = Some ''production'')"
    by (simp add: sample_inputs_def)
  from headers_depend_on_flag_and_production [OF flag prod refl, of documented_libs] flag prod
  show ?thesis by (simp only: simp_thms)
qed

text \<open>
  C3. When a required environment flag is missing or malformed, loading the module
  fails with an error that names an offending flag and says what is wrong with it; the
  result is that error and no module state, so no configuration object and no header
  list exist.
\<close>

theorem startup_fails_naming_offending_flag:
  assumes "offending schema (env m) flag"
  shows "\<exists>err. load_module L schema m = Inl err
           \<and> offending schema (env m) (named_flag err) \<and> describes err (env m)"
proof -
  from getServerRuntimeEnv_fails [OF assms]
  obtain err where "getServerRuntimeEnv schema (env m) = Inl err"
      "offending schema (env m) (named_flag err)" "describes err (env m)"
    by auto
  then show ?thesis by (auto simp: load_module_def)
qed

theorem startup_fails_naming_offending_flag_witness:
  "offending [(''DATABASE_URL'', \<lambda>v. v \<noteq> [])] (env sample_inputs) ''DATABASE_URL''
   \<and> load_module documented_libs [(''DATABASE_URL'', \<lambda>v. v \<noteq> [])] sample_inputs
       = Inl (MissingFlag ''DATABASE_URL'')
   \<and> (\<exists>err. load_module documented_libs [(''DATABASE_URL'', \<lambda>v. v \<noteq> [])] sample_inputs = Inl err
          \<and> offending [(''DATABASE_URL'', \<lambda>v. v \<noteq> [])] (env sample_inputs) (named_flag err)
          \<and> describes err (env sample_inputs))"
proof -
  have bad: "offending [(''DATABASE_URL'', \<lambda>v. v \<noteq> [])] (env sample_inputs) ''DATABASE_URL''"
    by (simp add: offending_def sample_inputs_def)
  have "load_module documented_libs [(''DATABASE_URL'', \<lambda>v. v \<noteq> [])] sample_inputs
       = Inl (MissingFlag ''DATABASE_URL'')"
    by (simp add: load_module_def sample_inputs_def)
  with bad startup_fails_naming_offending_flag [OF bad, of documented_libs]
  show ?thesis by simp
qed

text \<open>
  C4. With \<open>NEXT_BUILD_ENV_OUTPUT\<close> equal to \<open>standalone\<close> the configuration has
  \<open>output: 'standalone'\<close>, \<open>outputFileTracing\<close> and \<open>experimental.outputFileTracingRoot\<close>;
  with any other value the three keys are absent. This holds of the literal
  \<open>nextConfig\<close>, and of the exported configuration when the wrappers keep the sections.
\<close>

theorem standalone_output_keys:
  "standalone_keys_of (nextConfig m)
     = (if NEXT_BUILD_ENV_OUTPUT (buildEnv m) = ''standalone''
        then (Some (JStr ''standalone''), Some (JBool True), Some (JStr (workspaceRoot m)))
        else (None, None, None))
   \<and> (wrappers_keep_sections L \<longrightarrow>
        standalone_keys_of (config L m)
          = (if NEXT_BUILD_ENV_OUTPUT (buildEnv m) = ''standalone''
             then (Some (JStr ''standalone''), Some (JBool True), Some (JStr (workspaceRoot m)))
             else (None, None, None)))"
proof -
  have literal: "standalone_keys_of (nextConfig m)
     = (if NEXT_BUILD_ENV_OUTPUT (buildEnv m) = ''standalone''
        then (Some (JStr ''standalone''), Some (JBool True), Some (JStr (workspaceRoot m)))
        else (None, None, None))"
    using nextConfig_standalone [of m] nextConfig_not_standalone [of m]
    by (cases "NEXT_BUILD_ENV_OUTPUT (buildEnv m) = ''standalone''")
       (simp_all add: standalone_keys_of_def del: get_path.simps)
  have export: "standalone_keys_of (config L m) = standalone_keys_of (nextConfig m)"
    if keep: "wrappers_keep_sections L"
  proof -
    have a: "map_of (config L m) ''output'' = map_of (nextConfig m) ''output''"
      by (rule config_keeps_entry [OF keep]) simp_all
    have b: "map_of (config L m) ''outputFileTracing'' = map_of (nextConfig m) ''outputFileTracing''"
      by (rule config_keeps_entry [OF keep]) simp_all
    have c: "get_path (config L m) [''experimental'', ''outputFileTracingRoot'']
        = get_path (nextConfig m) [''experimental'', ''outputFileTracingRoot'']"
      by (rule config_keeps_path [OF keep]) simp_all
    show ?thesis
      by (simp only: standalone_keys_of_def a b c)
  qed
  show ?thesis
  proof (intro conjI impI)
    show "standalone_keys_of (nextConfig m)
       = (if NEXT_BUILD_ENV_OUTPUT (buildEnv m) = ''standalone''
          then (Some (JStr ''standalone''), Some (JBool True), Some (JStr (workspaceRoot m)))
          else (None, None, None))"
      by (rule literal)
    assume "wrappers_keep_sections L"
    then have "standalone_keys_of (config L m) = standalone_keys_of (nextConfig m)"
      by (rule export)
    with literal show "standalone_keys_of (config L m)
       = (if NEXT_BUILD_ENV_OUTPUT (buildEnv m) = ''standalone''
          then (Some (JStr ''standalone''), Some (JBool True), Some (JStr (workspaceRoot m)))
          else (None, None, None))"
      by (simp only:)
  qed
qed

theorem standalone_output_keys_witness:
  "wrappers_keep_sections documented_libs
   \<and> NEXT_BUILD_ENV_OUTPUT (buildEnv sample_inputs) \<noteq> ''standalone''
   \<and> standalone_keys_of (config documented_libs sample_inputs) = (None, None, None)
   \<and> NEXT_BUILD_ENV_OUTPUT
        (buildEnv (sample_inputs\<lparr>buildEnv := sample_buildEnv\<lparr>NEXT_BUILD_ENV_OUTPUT := ''standalone''\<rparr>\<rparr>))
        = ''standalone''
   \<and> standalone_keys_of (config documented_libs
        (sample_inputs\<lparr>buildEnv := sample_buildEnv\<lparr>NEXT_BUILD_ENV_OUTPUT := ''standalone''\<rparr>\<rparr>))
        = (Some (JStr ''standalone''), Some (JBool True), Some (JStr ''/workspace''))"
proof -
  let ?m = "sample_inputs\<lparr>buildEnv := sample_buildEnv\<lparr>NEXT_BUILD_ENV_OUTPUT := ''standalone''\<rparr>\<rparr>"
  have classic: "NEXT_BUILD_ENV_OUTPUT (buildEnv sample_inputs) \<noteq> ''standalone''"
    by (simp add: sample_inputs_def sample_buildEnv_def)
  have standalone: "NEXT_BUILD_ENV_OUTPUT (buildEnv ?m) = ''standalone''"
    by simp
  have root: "workspaceRoot ?m = ''/workspace''"
    by (simp add: sample_inputs_def)
  from standalone_output_keys [where m = sample_inputs and L = documented_libs]
    standalone_output_keys [where m = ?m and L = documented_libs]
    classic standalone root documented_wrappers_keep_sections
  show ?thesis by (simp only: simp_thms if_True if_False)
qed

text \<open>
  C5. The conditional sections are independent. The literal \<open>nextConfig\<close> does not read
  the telemetry flag \<open>NEXT_BUILD_ENV_SENTRY_ENABLED\<close>. With wrappers that keep the
  sections, and for every key other than \<open>sentry\<close> and \<open>webpack\<close> (the telemetry
  options and the hook that the telemetry wrapper instruments): the configurations
  exported with telemetry disabled and enabled have the same entry, and changing any
  other build flag changes no entry outside the section that reads the flag. In
  particular \<open>images\<close> is the same section with telemetry disabled and enabled.
\<close>

theorem sections_independent:
  "nextConfig (m\<lparr>buildEnv := (buildEnv m)\<lparr>NEXT_BUILD_ENV_SENTRY_ENABLED := b\<rparr>\<rparr>) = nextConfig m
   \<and> (wrappers_keep_sections L \<and> k \<noteq> ''sentry'' \<and> k \<noteq> ''webpack'' \<longrightarrow>
        map_of (config L (m\<lparr>buildEnv := (buildEnv m)\<lparr>NEXT_BUILD_ENV_SENTRY_ENABLED := False\<rparr>\<rparr>)) k
          = map_of (config L (m\<lparr>buildEnv := (buildEnv m)\<lparr>NEXT_BUILD_ENV_SENTRY_ENABLED := True\<rparr>\<rparr>)) k
        \<and> map_of (config L (m\<lparr>buildEnv := (buildEnv m)\<lparr>NEXT_BUILD_ENV_SENTRY_UPLOAD_DRY_RUN := b\<rparr>\<rparr>)) k
          = map_of (config L m) k
        \<and> map_of (config L (m\<lparr>buildEnv := (buildEnv m)\<lparr>NEXT_BUILD_ENV_SENTRY_DEBUG := b\<rparr>\<rparr>)) k
          = map_of (config L m) k
        \<and> map_of (config L (m\<lparr>buildEnv := (buildEnv m)\<lparr>NEXT_BUILD_ENV_SENTRY_TRACING := b\<rparr>\<rparr>)) k
          = map_of (config L m) k
        \<and> map_of (config L (m\<lparr>buildEnv := (buildEnv m)\<lparr>NEXT_BUILD_ENV_CSP := b\<rparr>\<rparr>)) k
          = map_of (config L m) k
        \<and> (k \<noteq> ''productionBrowserSourceMaps'' \<longrightarrow>
             map_of (config L (m\<lparr>buildEnv := (buildEnv m)\<lparr>NEXT_BUILD_ENV_SOURCEMAPS := b\<rparr>\<rparr>)) k
               = map_of (config L m) k)
        \<and> (k \<noteq> ''onDemandEntries'' \<longrightarrow>
             map_of (config L (m\<lparr>buildEnv := (buildEnv m)\<lparr>NEXT_BUILD_ENV_CI := b\<rparr>\<rparr>)) k
               = map_of (config L m) k)
        \<and> (k \<noteq> ''output'' \<and> k \<noteq> ''outputFileTracing'' \<and> k \<noteq> ''experimental'' \<longrightarrow>
             map_of (config L (m\<lparr>buildEnv := (buildEnv m)\<lparr>NEXT_BUILD_ENV_OUTPUT := out\<rparr>\<rparr>)) k
               = map_of (config L m) k)
        \<and> (k \<noteq> ''typescript'' \<longrightarrow>
             map_of (config L (m\<lparr>buildEnv := (buildEnv m)\<lparr>NEXT_BUILD_ENV_TYPECHECK := b\<rparr>\<rparr>)) k
               = map_of (config L m) k
             \<and> map_of (config L (m\<lparr>buildEnv := (buildEnv m)\<lparr>NEXT_BUILD_ENV_TSCONFIG := path\<rparr>\<rparr>)) k
               = map_of (config L m) k)
        \<and> (k \<noteq> ''eslint'' \<longrightarrow>
             map_of (config L (m\<lparr>buildEnv := (buildEnv m)\<lparr>NEXT_BUILD_ENV_LINT := b\<rparr>\<rparr>)) k
               = map_of (config L m) k))
   \<and> (wrappers_keep_sections L \<longrightarrow>
        map_of (config L (m\<lparr>buildEnv := (buildEnv m)\<lparr>NEXT_BUILD_ENV_SENTRY_ENABLED := False\<rparr>\<rparr>)) ''images''
          = Some images
        \<and> map_of (config L (m\<lparr>buildEnv := (buildEnv m)\<lparr>NEXT_BUILD_ENV_SENTRY_ENABLED := True\<rparr>\<rparr>)) ''images''
          = Some images)"
proof -
  have entry: "map_of (config L m') k' = map_of (nextConfig m') k'"
    if "wrappers_keep_sections L" "k' \<noteq> ''webpack''" "k' \<noteq> ''sentry''" for m' k'
    using that by (rule config_keeps_entry)
  have images: "map_of (config L m') ''images'' = Some images" if "wrappers_keep_sections L" for m'
    using entry [OF that, of "''images''" m'] by (simp add: nextConfig_images)
  show ?thesis
  proof (intro conjI impI; (elim conjE)?)
    assume keep: "wrappers_keep_sections L"
    show "map_of (config L (m\<lparr>buildEnv := (buildEnv m)\<lparr>NEXT_BUILD_ENV_SENTRY_ENABLED := False\<rparr>\<rparr>)) ''images''
          = Some images"
      by (rule images [OF keep])
    show "map_of (config L (m\<lparr>buildEnv := (buildEnv m)\<lparr>NEXT_BUILD_ENV_SENTRY_ENABLED := True\<rparr>\<rparr>)) ''images''
          = Some images"
      by (rule images [OF keep])
  qed (simp_all only: simp_thms entry frame_unread frame_SOURCEMAPS frame_CI frame_OUTPUT frame_TYPECHECK
        frame_TSCONFIG frame_LINT)
qed

theorem sections_independent_witness:
  "wrappers_keep_sections documented_libs
   \<and> ''typescript'' \<noteq> ''sentry'' \<and> ''typescript'' \<noteq> ''webpack''
   \<and> map_of (config documented_libs
               (sample_inputs\<lparr>buildEnv := (buildEnv sample_inputs)\<lparr>NEXT_BUILD_ENV_SENTRY_ENABLED := False\<rparr>\<rparr>))
        ''typescript''
     = map_of (config documented_libs
               (sample_inputs\<lparr>buildEnv := (buildEnv sample_inputs)\<lparr>NEXT_BUILD_ENV_SENTRY_ENABLED := True\<rparr>\<rparr>))
        ''typescript''
   \<and> ''typescript'' \<noteq> ''onDemandEntries''
   \<and> map_of (config documented_libs
               (sample_inputs\<lparr>buildEnv := (buildEnv sample_inputs)\<lparr>NEXT_BUILD_ENV_CI := True\<rparr>\<rparr>))
        ''typescript''
     = map_of (config documented_libs sample_inputs) ''typescript''
   \<and> map_of (config documented_libs
               (sample_inputs\<lparr>buildEnv := (buildEnv sample_inputs)\<lparr>NEXT_BUILD_ENV_SENTRY_ENABLED := False\<rparr>\<rparr>))
        ''images'' = Some images
   \<and> map_of (config documented_libs
               (sample_inputs\<lparr>buildEnv := (buildEnv sample_inputs)\<lparr>NEXT_BUILD_ENV_SENTRY_ENABLED := True\<rparr>\<rparr>))
        ''images'' = Some images"
proof -
  have k: "''typescript'' \<noteq> ''sentry''" "''typescript'' \<noteq> ''webpack''"
      "''typescript'' \<noteq> ''onDemandEntries''"
    by simp_all
  from sections_independent [where m = sample_inputs and L = documented_libs
      and k = "''typescript''" and b = True]
    k documented_wrappers_keep_sections
  show ?thesis by (simp only: simp_thms)
qed

text \<open>
  C6. A call of \<open>headers()\<close> is deterministic and free of side effects. On a heap
  where \<open>secureHeaders\<close> is an array of headers, the call returns; every cell that
  existed before it is unchanged, the call only allocates; the value it returns
  denotes the headers of \<open>secureHeaders\<close> followed by the two cross-origin headers,
  under the one pattern, which is the list \<open>headers\<close> gives for a module state with
  these headers; and a second call, on the heap the first one left, returns a
  value that denotes the same list, while the first result still denotes it too. The
  promise that wraps the result of the \<open>async\<close> function is left out.
\<close>

theorem headers_call_pure:
  assumes "read_headers h (Ref secureHeaders_at) = Some hs"
  shows "\<exists>r h'. headers_call secureHeaders_at h = Some (r, h')
           \<and> take (length h) h' = h
           \<and> read_headers h' (Ref secureHeaders_at) = Some hs
           \<and> read_rules h' r =
               Some [\<lparr> source = ''/:path((?!api).*)*'',
                       rule_headers = hs
                         @ [\<lparr> key = ''Cross-Origin-Opener-Policy'', val = ''same-origin'' \<rparr>,
                            \<lparr> key = ''Cross-Origin-Embedder-Policy'', val = ''same-origin'' \<rparr>] \<rparr>]
           \<and> read_rules h' r
               = Some (fst (headers \<lparr> console = out, secureHeaders_const = hs, default_export = c \<rparr>))
           \<and> (\<exists>r2 h''. headers_call secureHeaders_at h' = Some (r2, h'')
                 \<and> take (length h') h'' = h'
                 \<and> read_rules h'' r2 = read_rules h' r
                 \<and> read_rules h'' r = read_rules h' r)"
proof -
  let ?rules = "[\<lparr> source = ''/:path((?!api).*)*'',
                       rule_headers = hs
                         @ [\<lparr> key = ''Cross-Origin-Opener-Policy'', val = ''same-origin'' \<rparr>,
                            \<lparr> key = ''Cross-Origin-Embedder-Policy'', val = ''same-origin'' \<rparr>] \<rparr>]"
  from headers_call_result [OF assms] obtain r ext
    where first: "headers_call secureHeaders_at h = Some (r, h @ ext)"
      and out: "read_rules (h @ ext) r = Some ?rules"
    by blast
  have kept: "read_headers (h @ ext) (Ref secureHeaders_at) = Some hs"
    by (rule read_headers_append [OF assms])
  from headers_call_result [OF kept] obtain r2 ext2
    where second: "headers_call secureHeaders_at (h @ ext) = Some (r2, (h @ ext) @ ext2)"
      and out2: "read_rules ((h @ ext) @ ext2) r2 = Some ?rules"
    by blast
  have still: "read_rules ((h @ ext) @ ext2) r = Some ?rules"
    by (rule read_rules_append [OF out])
  show ?thesis
  proof (intro exI conjI)
    show "headers_call secureHeaders_at h = Some (r, h @ ext)" by (rule first)
    show "take (length h) (h @ ext) = h" by simp
    show "read_headers (h @ ext) (Ref secureHeaders_at) = Some hs" by (rule kept)
    show "read_rules (h @ ext) r = Some ?rules" by (rule out)
    show "read_rules (h @ ext) r
        = Some (fst (headers \<lparr> console = out, secureHeaders_const = hs, default_export = c \<rparr>))"
      by (simp add: out headers_fst)
    show "headers_call secureHeaders_at (h @ ext) = Some (r2, (h @ ext) @ ext2)" by (rule second)
    show "take (length (h @ ext)) ((h @ ext) @ ext2) = h @ ext" by simp
    show "read_rules ((h @ ext) @ ext2) r2 = read_rules (h @ ext) r" by (simp only: out out2)
    show "read_rules ((h @ ext) @ ext2) r = read_rules (h @ ext) r" by (simp only: out still)
  qed
qed

theorem headers_call_pure_witness:
  "read_headers sample_heap (Ref 1) = Some [\<lparr> key = ''Referrer-Policy'', val = ''same-origin'' \<rparr>]
   \<and> (\<exists>r h'. headers_call 1 sample_heap = Some (r, h')
           \<and> take (length sample_heap) h' = sample_heap
           \<and> read_rules h' r =
               Some [\<lparr> source = ''/:path((?!api).*)*'',
                       rule_headers =
                         [\<lparr> key = ''Referrer-Policy'', val = ''same-origin'' \<rparr>,
                          \<lparr> key = ''Cross-Origin-Opener-Policy'', val = ''same-origin'' \<rparr>,
                          \<lparr> key = ''Cross-Origin-Embedder-Policy'', val = ''same-origin'' \<rparr>] \<rparr>]
           \<and> (\<exists>r2 h''. headers_call 1 h' = Some (r2, h'')
                 \<and> take (length h') h'' = h'
                 \<and> read_rules h'' r2 = read_rules h' r
                 \<and> read_rules h'' r = read_rules h' r))"
proof -
  have given: "read_headers sample_heap (Ref 1)
      = Some [\<lparr> key = ''Referrer-Policy'', val = ''same-origin'' \<rparr>]"
    by (simp add: read_headers_def elements_def cell_at_def read_header_def sample_heap_def)
  from headers_call_pure [OF given] given
  show ?thesis by (simp only: append_Cons append_Nil) blast
qed

text \<open>
  C8 fails on the pattern. Whatever the strict-policy flag, the header set has the
  referrer policy and the cross-origin isolation headers, and no API route is matched,
  but the pattern \<open>/:path((?!api).*)*\<close> matches no path that begins with \<open>/api\<close> at
  all, in any case of the letters: the page route \<open>/apiary\<close> is not an API route and is not matched, where
  \<open>/about\<close> is matched and the API route \<open>/api/hello\<close> is not.
\<close>

theorem page_route_without_headers:
  "\<not> is_api_route ''/apiary'' \<and> \<not> source_matches ''/apiary''
   \<and> \<not> is_api_route ''/about'' \<and> source_matches ''/about''
   \<and> is_api_route ''/api/hello'' \<and> \<not> source_matches ''/api/hello''"
  by (simp add: is_api_route_def source_matches_def matches_whole_def source_regexp_def
      path_pattern_def lower_def)

text \<open>
  C9. \<open>onDemandEntries.maxInactiveAge\<close> is 3,600,000 when \<open>NEXT_BUILD_ENV_CI\<close> is set and
  25,000 otherwise, whatever the other flags: in the literal \<open>nextConfig\<close>, and in the
  exported configuration when the wrappers keep the sections.
\<close>

theorem maxInactiveAge_by_ci:
  "get_path (nextConfig m) [''onDemandEntries'', ''maxInactiveAge'']
     = Some (JNum (if NEXT_BUILD_ENV_CI (buildEnv m) then 3600000 else 25000))
   \<and> (wrappers_keep_sections L \<longrightarrow>
        get_path (config L m) [''onDemandEntries'', ''maxInactiveAge'']
          = Some (JNum (if NEXT_BUILD_ENV_CI (buildEnv m) then 3600000 else 25000)))"
proof (intro conjI impI)
  show literal: "get_path (nextConfig m) [''onDemandEntries'', ''maxInactiveAge'']
     = Some (JNum (if NEXT_BUILD_ENV_CI (buildEnv m) then 3600000 else 25000))"
    by (rule nextConfig_maxInactiveAge)
  assume keep: "wrappers_keep_sections L"
  have "get_path (config L m) [''onDemandEntries'', ''maxInactiveAge'']
      = get_path (nextConfig m) [''onDemandEntries'', ''maxInactiveAge'']"
    by (rule config_keeps_path [OF keep]) simp_all
  with literal show "get_path (config L m) [''onDemandEntries'', ''maxInactiveAge'']
      = Some (JNum (if NEXT_BUILD_ENV_CI (buildEnv m) then 3600000 else 25000))"
    by (simp only:)
qed

theorem maxInactiveAge_by_ci_witness:
  "wrappers_keep_sections documented_libs
   \<and> get_path (config documented_libs sample_inputs) [''onDemandEntries'', ''maxInactiveAge'']
       = Some (JNum 25000)
   \<and> get_path (config documented_libs
                 (sample_inputs\<lparr>buildEnv := sample_buildEnv\<lparr>NEXT_BUILD_ENV_CI := True\<rparr>\<rparr>))
         [''onDemandEntries'', ''maxInactiveAge'']
       = Some (JNum 3600000)"
proof -
  let ?m = "sample_inputs\<lparr>buildEnv := sample_buildEnv\<lparr>NEXT_BUILD_ENV_CI := True\<rparr>\<rparr>"
  have off: "\<not> NEXT_BUILD_ENV_CI (buildEnv sample_inputs)"
    by (simp add: sample_inputs_def sample_buildEnv_def)
  have on: "NEXT_BUILD_ENV_CI (buildEnv ?m)"
    by simp
  from maxInactiveAge_by_ci [where m = sample_inputs and L = documented_libs]
    maxInactiveAge_by_ci [where m = ?m and L = documented_libs]
    off on documented_wrappers_keep_sections
  show ?thesis by (simp only: if_True if_False simp_thms)
qed

text \<open>
  C10. When \<open>package.json\<close> has no \<open>name\<close>, \<open>env.APP_NAME\<close> is the string
  \<open>not-in-package.json\<close>, and when it has no \<open>version\<close>, \<open>env.APP_VERSION\<close> is that
  string: in the literal \<open>nextConfig\<close>, and in the exported configuration when the
  wrappers keep the sections. Startup does not fail for it: whenever the environment
  passes validation the module loads and exports the configuration.
\<close>

theorem package_json_fallback:
  "(name (packageJson m) = None \<longrightarrow>
      get_path (nextConfig m) [''env'', ''APP_NAME''] = Some (JStr ''not-in-package.json'')
      \<and> (wrappers_keep_sections L \<longrightarrow>
           get_path (config L m) [''env'', ''APP_NAME''] = Some (JStr ''not-in-package.json'')))
   \<and> (version (packageJson m) = None \<longrightarrow>
      get_path (nextConfig m) [''env'', ''APP_VERSION''] = Some (JStr ''not-in-package.json'')
      \<and> (wrappers_keep_sections L \<longrightarrow>
           get_path (config L m) [''env'', ''APP_VERSION''] = Some (JStr ''not-in-package.json'')))
   \<and> (\<forall>schema serverEnv. getServerRuntimeEnv schema (env m) = Inr serverEnv \<longrightarrow>
        (\<exists>s. load_module L schema m = Inr s \<and> default_export s = config L m))"
proof -
  have a: "get_path (config L m) [''env'', ''APP_NAME''] = get_path (nextConfig m) [''env'', ''APP_NAME'']"
    if "wrappers_keep_sections L"
    by (rule config_keeps_path [OF that]) simp_all
  have b: "get_path (config L m) [''env'', ''APP_VERSION''] = get_path (nextConfig m) [''env'', ''APP_VERSION'']"
    if "wrappers_keep_sections L"
    by (rule config_keeps_path [OF that]) simp_all
  have e: "getServerRuntimeEnv schema (env m) = Inr serverEnv \<Longrightarrow>
      \<exists>s. load_module L schema m = Inr s \<and> default_export s = config L m" for schema serverEnv
    by (simp add: load_module_def module_body_def)
  show ?thesis
    using nextConfig_APP_NAME [of m] nextConfig_APP_VERSION [of m] e
    by (intro conjI impI allI) (simp_all only: a b)
qed

theorem package_json_fallback_witness:
  "wrappers_keep_sections documented_libs
   \<and> name (packageJson (sample_inputs\<lparr>packageJson := \<lparr>name = None, version = None\<rparr>\<rparr>)) = None
   \<and> version (packageJson (sample_inputs\<lparr>packageJson := \<lparr>name = None, version = None\<rparr>\<rparr>)) = None
   \<and> get_path (config documented_libs (sample_inputs\<lparr>packageJson := \<lparr>name = None, version = None\<rparr>\<rparr>))
        [''env'', ''APP_NAME''] = Some (JStr ''not-in-package.json'')
   \<and> get_path (config documented_libs (sample_inputs\<lparr>packageJson := \<lparr>name = None, version = None\<rparr>\<rparr>))
        [''env'', ''APP_VERSION''] = Some (JStr ''not-in-package.json'')
   \<and> getServerRuntimeEnv [] (env (sample_inputs\<lparr>packageJson := \<lparr>name = None, version = None\<rparr>\<rparr>))
        = Inr []
   \<and> (\<exists>s. load_module documented_libs [] (sample_inputs\<lparr>packageJson := \<lparr>name = None, version = None\<rparr>\<rparr>)
          = Inr s
        \<and> default_export s
          = config documented_libs (sample_inputs\<lparr>packageJson := \<lparr>name = None, version = None\<rparr>\<rparr>))"
proof -
  let ?m = "sample_inputs\<lparr>packageJson := \<lparr>name = None, version = None\<rparr>\<rparr>"
  have n: "name (packageJson ?m) = None" and v: "version (packageJson ?m) = None"
    by simp_all
  have ok: "getServerRuntimeEnv [] (env ?m) = Inr []"
    by simp
  from package_json_fallback [where m = ?m and L = documented_libs] n v ok
    documented_wrappers_keep_sections
  show ?thesis by blast
qed

end
